theory Spec2Isabelle
  imports Complex_Main "HOL-Library.Sublist"
begin

section \<open>JavaScript values and the runtime the code runs on\<close>

text \<open>
  The adapter is TypeScript. Its own functions are translated below; what they call in
  the JavaScript engine and in third-party libraries (\<open>JSON.parse\<close>, the \<open>Function\<close>
  constructor, \<open>xml2js\<close>, number formatting, \<open>parseInt\<close>, \<open>parseFloat\<close>) is not code of
  the repository and is passed to every definition as a record of functions, so that each
  theorem holds for whatever these built-ins compute.

  Strings are lists of 8-bit code units, numbers are the finite doubles (as rationals)
  together with NaN and the two infinities.
\<close>

datatype jsnum = NaN | PosInfinity | NegInfinity | Finite rat

datatype jsval =
    JUndefined
  | JNull
  | JBool bool
  | JNum jsnum
  | JStr string
  | JArr "jsval list"
  | JObj "(string \<times> jsval) list"

record runtime =
  jsonParse :: "string \<Rightarrow> string + jsval"
  runFunctionBody :: "string \<Rightarrow> jsval option"
  parseStringPromise :: "string \<Rightarrow> string + jsval"
  numberToString :: "rat \<Rightarrow> string"
  parseInt10 :: "jsval \<Rightarrow> jsnum"
  parseFloat :: "jsval \<Rightarrow> jsnum"
  stackTrace :: "string \<Rightarrow> string option"

text \<open>
  \<open>jsonParse\<close> returns the message of the SyntaxError on the left;
  \<open>runFunctionBody b\<close> is \<open>new Function(b)()\<close>, \<open>None\<close> when either step throws;
  \<open>parseStringPromise\<close> is the \<open>xml2js\<close> call with the options the client passes,
  with \<open>String(error)\<close> on the left; \<open>parseInt10 v\<close> is \<open>parseInt(v, 10)\<close>;
  \<open>stackTrace m\<close> is the stack the engine attaches to a new error with message \<open>m\<close>.
\<close>

subsection \<open>Truthiness, property reads, \<open>||\<close>\<close>

fun truthy :: "jsval \<Rightarrow> bool" where
  "truthy JUndefined = False"
| "truthy JNull = False"
| "truthy (JBool b) = b"
| "truthy (JNum n) = (n \<noteq> NaN \<and> n \<noteq> Finite 0)"
| "truthy (JStr s) = (s \<noteq> [])"
| "truthy (JArr vs) = True"
| "truthy (JObj kvs) = True"

definition orElse :: "jsval \<Rightarrow> jsval \<Rightarrow> jsval" where
  "orElse a b = (if truthy a then a else b)"

text \<open>
  \<open>v.k\<close> for a value that is neither \<open>null\<close> nor \<open>undefined\<close> and a name \<open>k\<close> that
  no prototype defines (every property name the handlers read is such a name): the own
  property of an object, \<open>undefined\<close> on anything else.
\<close>

fun field :: "jsval \<Rightarrow> string \<Rightarrow> jsval" where
  "field (JObj kvs) k = (case map_of kvs k of Some v \<Rightarrow> v | None \<Rightarrow> JUndefined)"
| "field v k = JUndefined"

definition isNullish :: "jsval \<Rightarrow> bool" where
  "isNullish v \<longleftrightarrow> v = JNull \<or> v = JUndefined"

section \<open>Classified errors (errors/index.ts)\<close>

datatype ErrorCategory = NETWORK | API | VALIDATION | SESSION | FILE | INTERNAL

datatype detail = DString string | DNumber rat | DUndefined

record McpError =
  errorName :: string
  code :: string
  category :: ErrorCategory
  message :: string
  retryable :: bool
  details :: "(string \<times> detail) list option"

text \<open>
  What a \<open>catch\<close> clause can receive: an error of the taxonomy, any other \<open>Error\<close>
  (with its optional \<open>code\<close>, its message and its optional stack), or a value that is
  not an \<open>Error\<close>, kept as its \<open>String(...)\<close> rendering.
\<close>

datatype thrown =
    Mcp McpError
  | JsError "string option" string "string option"
  | NonError string

definition optString :: "string option \<Rightarrow> detail" where
  "optString s = (case s of None \<Rightarrow> DUndefined | Some t \<Rightarrow> DString t)"

definition NetworkError :: "string \<Rightarrow> (string \<times> detail) list option \<Rightarrow> McpError" where
  "NetworkError msg ds =
     \<lparr>errorName = ''NetworkError'', code = ''NETWORK_ERROR'', category = NETWORK,
      message = msg, retryable = True, details = ds\<rparr>"

definition NetworkError_timeout ::
  "runtime \<Rightarrow> string \<Rightarrow> rat \<Rightarrow> string option \<Rightarrow> McpError" where
  "NetworkError_timeout rt url timeoutMs hint =
     NetworkError
       (''Request to '' @ url @ '' timed out after '' @ numberToString rt timeoutMs @ ''ms'')
       (Some [(''url'', DString url), (''timeoutMs'', DNumber timeoutMs),
              (''errorType'', DString ''TIMEOUT''), (''hint'', optString hint)])"

definition NetworkError_timeoutForTransactionList ::
  "runtime \<Rightarrow> string \<Rightarrow> rat \<Rightarrow> McpError" where
  "NetworkError_timeoutForTransactionList rt url timeoutMs =
     NetworkError_timeout rt url timeoutMs
       (Some (''Note: The Money Manager server may hang when querying date ranges with no transactions. ''
            @ ''This is a known server-side limitation. Try a date range that has recorded transactions.''))"

definition NetworkError_connectionRefused :: "string \<Rightarrow> McpError" where
  "NetworkError_connectionRefused url =
     NetworkError (''Connection refused to '' @ url)
       (Some [(''url'', DString url), (''errorType'', DString ''CONNECTION_REFUSED'')])"

definition NetworkError_unreachable :: "string \<Rightarrow> string option \<Rightarrow> McpError" where
  "NetworkError_unreachable url originalError =
     NetworkError (''Cannot connect to Money Manager server at '' @ url)
       (Some [(''url'', DString url), (''originalError'', optString originalError),
              (''errorType'', DString ''UNREACHABLE'')])"

definition optNumber :: "nat option \<Rightarrow> detail" where
  "optNumber n = (case n of None \<Rightarrow> DUndefined | Some k \<Rightarrow> DNumber (of_nat k))"

definition APIError ::
  "string \<Rightarrow> nat option \<Rightarrow> (string \<times> detail) list \<Rightarrow> McpError" where
  "APIError msg statusCode ds =
     \<lparr>errorName = ''APIError'', code = ''API_ERROR'', category = API, message = msg,
      retryable = (case statusCode of None \<Rightarrow> False | Some s \<Rightarrow> s \<ge> 500),
      details = Some (filter (\<lambda>kv. fst kv \<noteq> ''statusCode'') ds
                      @ [(''statusCode'', optNumber statusCode)])\<rparr>"

definition defaultMessages :: "nat \<Rightarrow> string option" where
  "defaultMessages s =
     map_of [(400, ''Bad Request''), (401, ''Unauthorized''), (403, ''Forbidden''),
             (404, ''Not Found''), (500, ''Internal Server Error''),
             (502, ''Bad Gateway''), (503, ''Service Unavailable'')] s"

definition APIError_fromStatusCode :: "nat \<Rightarrow> string option \<Rightarrow> McpError" where
  "APIError_fromStatusCode statusCode msg =
     APIError
       (case msg of Some m \<Rightarrow> m
        | None \<Rightarrow> (case defaultMessages statusCode of Some m \<Rightarrow> m
                   | None \<Rightarrow> ''Unknown Error''))
       (Some statusCode) []"

definition SessionError :: "string \<Rightarrow> (string \<times> detail) list option \<Rightarrow> McpError" where
  "SessionError msg ds =
     \<lparr>errorName = ''SessionError'', code = ''SESSION_ERROR'', category = SESSION,
      message = msg, retryable = True, details = ds\<rparr>"

definition SessionError_unauthorized :: McpError where
  "SessionError_unauthorized =
     SessionError ''Unauthorized access. Please check your credentials.'' None"

definition FileError ::
  "string \<Rightarrow> string option \<Rightarrow> (string \<times> detail) list \<Rightarrow> McpError" where
  "FileError msg filePath ds =
     \<lparr>errorName = ''FileError'', code = ''FILE_ERROR'', category = FILE, message = msg,
      retryable = False,
      details = Some (filter (\<lambda>kv. fst kv \<noteq> ''filePath'') ds
                      @ [(''filePath'', optString filePath)])\<rparr>"

definition FileError_notFound :: "string \<Rightarrow> McpError" where
  "FileError_notFound filePath =
     FileError (''File not found: '' @ [CHR 0x27] @ filePath @ [CHR 0x27]) (Some filePath)
       [(''operation'', DString ''access'')]"

definition InternalError :: "string \<Rightarrow> (string \<times> detail) list option \<Rightarrow> McpError" where
  "InternalError msg ds =
     \<lparr>errorName = ''InternalError'', code = ''INTERNAL_ERROR'', category = INTERNAL,
      message = msg, retryable = False, details = ds\<rparr>"

definition InternalError_unexpected :: "(string \<times> string option) option \<Rightarrow> McpError" where
  "InternalError_unexpected originalError =
     InternalError ''An unexpected error occurred''
       (case originalError of
          None \<Rightarrow> None
        | Some (msg, stack) \<Rightarrow>
            Some [(''originalError'', DString msg), (''stack'', optString stack)])"

fun wrapError :: "runtime \<Rightarrow> thrown \<Rightarrow> McpError" where
  "wrapError rt (Mcp e) = e"
| "wrapError rt (JsError c msg stack) =
     (if c = Some ''ECONNREFUSED'' then NetworkError_connectionRefused ''unknown''
      else if c = Some ''ETIMEDOUT'' \<or> c = Some ''ECONNABORTED''
        then NetworkError_timeout rt ''unknown'' 0 None
      else if c = Some ''ENOTFOUND'' then NetworkError_unreachable ''unknown'' (Some msg)
      else InternalError_unexpected (Some (msg, stack)))"
| "wrapError rt (NonError s) = InternalError s None"

text \<open>
  The TypeError of a property read on \<open>null\<close> or \<open>undefined\<close> (the message is V8's),
  and a plain \<open>new Error(msg)\<close>.
\<close>

definition nullReadError :: "runtime \<Rightarrow> jsval \<Rightarrow> string \<Rightarrow> thrown" where
  "nullReadError rt v k =
     (let msg = ''Cannot read properties of ''
                  @ (if v = JNull then ''null'' else ''undefined'')
                  @ '' (reading '' @ [CHR 0x27] @ k @ [CHR 0x27] @ '')''
      in JsError None msg (stackTrace rt msg))"

definition newError :: "runtime \<Rightarrow> string \<Rightarrow> thrown" where
  "newError rt msg = JsError None msg (stackTrace rt msg)"

section \<open>Configuration (config/index.ts)\<close>

record ServerConfig =
  baseUrl :: string
  timeout :: rat
  retryCount :: rat
  retryDelay :: rat

record Config =
  server :: ServerConfig

text \<open>
  \<open>ConfigSchema\<close>: the numeric bounds \<open>loadConfig\<close> enforces before a client is built.
  The schema does not ask for whole numbers.
\<close>

definition ConfigSchema :: "Config \<Rightarrow> bool" where
  "ConfigSchema cfg \<longleftrightarrow>
     1000 \<le> timeout (server cfg) \<and> timeout (server cfg) \<le> 120000 \<and>
     0 \<le> retryCount (server cfg) \<and> retryCount (server cfg) \<le> 10 \<and>
     100 \<le> retryDelay (server cfg) \<and> retryDelay (server cfg) \<le> 10000"

section \<open>The HTTP client (client/http-client.ts)\<close>

subsection \<open>Classification of transport failures\<close>

text \<open>
  What the response interceptor receives: an axios error (the status of the response when
  there is one, the error code, the message, the URL of the request), or anything else.
\<close>

datatype failure =
    AxiosError "nat option" "string option" string "string option"
  | OtherFailure thrown

fun handleResponseError :: "runtime \<Rightarrow> Config \<Rightarrow> failure \<Rightarrow> McpError" where
  "handleResponseError rt cfg (AxiosError None c msg reqUrl) =
     (if c = Some ''ECONNREFUSED'' then NetworkError_connectionRefused (baseUrl (server cfg))
      else if c = Some ''ETIMEDOUT'' \<or> c = Some ''ECONNABORTED'' then
        (let url = (case reqUrl of Some u \<Rightarrow> u | None \<Rightarrow> ''unknown'') in
         if sublist ''/getDataByPeriod'' url
         then NetworkError_timeoutForTransactionList rt url (timeout (server cfg))
         else NetworkError_timeout rt url (timeout (server cfg)) None)
      else if c = Some ''ENOTFOUND''
        then NetworkError_unreachable (baseUrl (server cfg)) (Some msg)
      else NetworkError msg (Some [(''code'', optString c)]))"
| "handleResponseError rt cfg (AxiosError (Some status) c msg reqUrl) =
     (if status = 401 \<or> status = 403 then SessionError_unauthorized
      else APIError_fromStatusCode status (Some msg))"
| "handleResponseError rt cfg (OtherFailure e) = wrapError rt e"

text \<open>
  A request function of the client: the \<open>k\<close>-th call of the underlying transport either
  answers or fails, and a failure reaches the caller through the interceptor.
\<close>

definition clientRequest ::
  "runtime \<Rightarrow> Config \<Rightarrow> (nat \<Rightarrow> failure + 'a) \<Rightarrow> nat \<Rightarrow> thrown + 'a" where
  "clientRequest rt cfg transport k =
     (case transport k of
        Inl f \<Rightarrow> Inl (Mcp (handleResponseError rt cfg f))
      | Inr response \<Rightarrow> Inr response)"

subsection \<open>Retry with exponential backoff\<close>

datatype LogLevel = Debug | Info | Warn | Error

record LogCall =
  level :: LogLevel
  logMessage :: string
  logArgs :: "string list"

text \<open>
  One run of \<open>executeWithRetry\<close>: what it returns or throws, how many times it called the
  request function, the delays it passed to \<open>sleep\<close> and its calls of \<open>log\<close>, in order.
\<close>

record 'a Execution =
  outcome :: "McpError + 'a"
  attempts :: nat
  sleeps :: "rat list"
  logCalls :: "LogCall list"

definition retryWarning :: "runtime \<Rightarrow> rat \<Rightarrow> nat \<Rightarrow> rat \<Rightarrow> LogCall" where
  "retryWarning rt delay attempt maxRetries =
     \<lparr>level = Warn,
      logMessage = ''Request failed, retrying in '' @ numberToString rt delay
        @ ''ms (attempt '' @ numberToString rt (of_nat attempt + 1) @ ''/''
        @ numberToString rt maxRetries @ '')'',
      logArgs = []\<rparr>"

function retryLoop ::
  "runtime \<Rightarrow> Config \<Rightarrow> (nat \<Rightarrow> thrown + 'a) \<Rightarrow> nat \<Rightarrow> McpError option
     \<Rightarrow> rat list \<Rightarrow> LogCall list \<Rightarrow> 'a Execution" where
  "retryLoop rt cfg requestFn attempt lastError slept logged =
     (if of_nat attempt \<le> retryCount (server cfg) then
        (case requestFn attempt of
           Inr response \<Rightarrow>
             \<lparr>outcome = Inr response, attempts = Suc attempt, sleeps = slept,
              logCalls = logged\<rparr>
         | Inl error \<Rightarrow>
             (if \<not> retryable (wrapError rt error) \<or> of_nat attempt \<ge> retryCount (server cfg)
              then \<lparr>outcome = Inl (wrapError rt error), attempts = Suc attempt,
                    sleeps = slept, logCalls = logged\<rparr>
              else retryLoop rt cfg requestFn (Suc attempt) (Some (wrapError rt error))
                     (slept @ [retryDelay (server cfg) * 2 ^ attempt])
                     (logged @ [retryWarning rt (retryDelay (server cfg) * 2 ^ attempt)
                                  attempt (retryCount (server cfg))])))
      else
        \<lparr>outcome = Inl (case lastError of Some e \<Rightarrow> e
                        | None \<Rightarrow> NetworkError ''Request failed after all retries'' None),
         attempts = attempt, sleeps = slept, logCalls = logged\<rparr>)"
  by pat_completeness auto
termination
proof (relation "measure (\<lambda>(rt, cfg, requestFn, attempt, rest).
                   nat (\<lfloor>retryCount (server cfg)\<rfloor> + 1 - int attempt))")
  show "wf (measure (\<lambda>(rt, cfg, requestFn, attempt, rest).
                   nat (\<lfloor>retryCount (server cfg)\<rfloor> + 1 - int attempt)))"
    by simp
next
  fix rt :: runtime and cfg :: Config and requestFn :: "nat \<Rightarrow> thrown + 'a"
    and attempt :: nat and lastError :: "McpError option" and slept :: "rat list"
    and logged :: "LogCall list" and x1 :: thrown
  assume le: "of_nat attempt \<le> retryCount (server cfg)"
  have "int attempt \<le> \<lfloor>retryCount (server cfg)\<rfloor>"
    using le by (simp add: le_floor_iff)
  then show "((rt, cfg, requestFn, Suc attempt, Some (wrapError rt x1),
               slept @ [retryDelay (server cfg) * 2 ^ attempt],
               logged @ [retryWarning rt (retryDelay (server cfg) * 2 ^ attempt) attempt
                           (retryCount (server cfg))]),
              (rt, cfg, requestFn, attempt, lastError, slept, logged))
             \<in> measure (\<lambda>(rt, cfg, requestFn, attempt, rest).
                   nat (\<lfloor>retryCount (server cfg)\<rfloor> + 1 - int attempt))"
    by simp
qed

declare retryLoop.simps [simp del]

definition executeWithRetry ::
  "runtime \<Rightarrow> Config \<Rightarrow> (nat \<Rightarrow> thrown + 'a) \<Rightarrow> 'a Execution" where
  "executeWithRetry rt cfg requestFn = retryLoop rt cfg requestFn 0 None [] []"

subsection \<open>Decoding object-literal responses\<close>

text \<open>
  The white space of ECMAScript (what \<open>trim\<close> strips and \<open>\s\<close> matches) among the
  8-bit code units: tab, line feed, vertical tab, form feed, carriage return, space and
  no-break space. Its line terminators there are line feed and carriage return.
\<close>

definition isWhiteSpace :: "char \<Rightarrow> bool" where
  "isWhiteSpace c \<longleftrightarrow>
     c \<in> {CHR 0x09, CHR 0x0A, CHR 0x0B, CHR 0x0C, CHR 0x0D, CHR 0x20, CHR 0xA0}"

definition isLineTerminator :: "char \<Rightarrow> bool" where
  "isLineTerminator c \<longleftrightarrow> c = CHR 0x0A \<or> c = CHR 0x0D"

definition trim :: "string \<Rightarrow> string" where
  "trim s = rev (dropWhile isWhiteSpace (rev (dropWhile isWhiteSpace s)))"

text \<open>The character classes \<open>[a-zA-Z_]\<close> and \<open>[a-zA-Z0-9_]\<close>.\<close>

definition isIdentStart :: "char \<Rightarrow> bool" where
  "isIdentStart c \<longleftrightarrow>
     (of_char (CHR ''a'') \<le> (of_char c :: nat) \<and> (of_char c :: nat) \<le> of_char (CHR ''z''))
     \<or> (of_char (CHR ''A'') \<le> (of_char c :: nat) \<and> (of_char c :: nat) \<le> of_char (CHR ''Z''))
     \<or> c = CHR ''_''"

definition isIdentPart :: "char \<Rightarrow> bool" where
  "isIdentPart c \<longleftrightarrow>
     isIdentStart c
     \<or> (of_char (CHR ''0'') \<le> (of_char c :: nat) \<and> (of_char c :: nat) \<le> of_char (CHR ''9''))"

text \<open>
  A match of \<open>\s*([a-zA-Z_][a-zA-Z0-9_]*)\s*:\<close> at the start of a string: the
  identifier and the length of the match. Each starred class is followed by a character
  outside it, so the greedy match is the only one and nothing is gained by backtracking.
\<close>

definition matchKey :: "string \<Rightarrow> (string \<times> nat) option" where
  "matchKey s =
     (let r1 = dropWhile isWhiteSpace s;
          ident = takeWhile isIdentPart r1;
          r2 = dropWhile isIdentPart r1;
          r3 = dropWhile isWhiteSpace r2
      in case r1 of
           [] \<Rightarrow> None
         | c # cs \<Rightarrow>
             if isIdentStart c then
               (case r3 of
                  [] \<Rightarrow> None
                | d # ds \<Rightarrow>
                    if d = CHR '':'' then Some (ident, length s - length ds) else None)
             else None)"

text \<open>
  Step 2, \<open>replace(/([{,\[])\s*([a-zA-Z_][a-zA-Z0-9_]*)\s*:/g, '$1"$2":')\<close>. The scan
  goes from left to right and resumes after each match; the first argument counts the
  characters of the current match that are still to be passed over.
\<close>

fun quoteKeysAfterOpeners :: "nat \<Rightarrow> string \<Rightarrow> string" where
  "quoteKeysAfterOpeners skip [] = []"
| "quoteKeysAfterOpeners (Suc skip) (c # cs) = quoteKeysAfterOpeners skip cs"
| "quoteKeysAfterOpeners 0 (c # cs) =
     (if c = CHR ''{'' \<or> c = CHR '','' \<or> c = CHR ''[''
      then (case matchKey cs of
              Some (ident, len) \<Rightarrow>
                c # CHR 0x22 # ident @ [CHR 0x22, CHR '':''] @ quoteKeysAfterOpeners len cs
            | None \<Rightarrow> c # quoteKeysAfterOpeners 0 cs)
      else c # quoteKeysAfterOpeners 0 cs)"

text \<open>
  Step 3, \<open>replace(/^\s*([a-zA-Z_][a-zA-Z0-9_]*)\s*:/gm, '"$1":')\<close>: a match may
  start at the beginning of the text or right after a line terminator (the first
  argument says whether the current position is such a place).
\<close>

fun quoteKeysAtLineStart :: "bool \<Rightarrow> nat \<Rightarrow> string \<Rightarrow> string" where
  "quoteKeysAtLineStart atStart skip [] = []"
| "quoteKeysAtLineStart atStart (Suc skip) (c # cs) =
     quoteKeysAtLineStart (isLineTerminator c) skip cs"
| "quoteKeysAtLineStart atStart 0 (c # cs) =
     (if atStart
      then (case matchKey (c # cs) of
              Some (ident, len) \<Rightarrow>
                CHR 0x22 # ident @ [CHR 0x22, CHR '':'']
                  @ quoteKeysAtLineStart (isLineTerminator c) (len - 1) cs
            | None \<Rightarrow> c # quoteKeysAtLineStart (isLineTerminator c) 0 cs)
      else c # quoteKeysAtLineStart (isLineTerminator c) 0 cs)"

text \<open>Step 4, \<open>replace(/""/g, '"')\<close>.\<close>

fun collapseDoubledQuotes :: "string \<Rightarrow> string" where
  "collapseDoubledQuotes (c # d # cs) =
     (if c = CHR 0x22 \<and> d = CHR 0x22 then CHR 0x22 # collapseDoubledQuotes cs
      else c # collapseDoubledQuotes (d # cs))"
| "collapseDoubledQuotes cs = cs"

definition convertJsLiteralToJson :: "string \<Rightarrow> string" where
  "convertJsLiteralToJson jsLiteral =
     collapseDoubledQuotes
       (quoteKeysAtLineStart True 0
          (quoteKeysAfterOpeners 0
             (map (\<lambda>c. if c = CHR 0x27 then CHR 0x22 else c) jsLiteral)))"

text \<open>\<open>String(e)\<close> for an error with the given name and message.\<close>

definition errorToString :: "string \<Rightarrow> string \<Rightarrow> string" where
  "errorToString nm msg = (if msg = [] then nm else nm @ '': '' @ msg)"

text \<open>
  \<open>parseJsLiteralResponse\<close>: the decoded value or the error thrown, with the calls of
  \<open>log\<close> it made.
\<close>

definition parseJsLiteralResponse ::
  "runtime \<Rightarrow> string \<Rightarrow> (McpError + jsval) \<times> LogCall list" where
  "parseJsLiteralResponse rt responseText =
     (if responseText = [] \<or> trim responseText = [] then (Inr (JObj []), [])
      else
        (case jsonParse rt responseText of
           Inr v \<Rightarrow> (Inr v, [])
         | Inl strictError \<Rightarrow>
             (case jsonParse rt (convertJsLiteralToJson responseText) of
                Inr v \<Rightarrow> (Inr v, [])
              | Inl conversionError \<Rightarrow>
                  (case runFunctionBody rt (''return ('' @ responseText @ '');'') of
                     Some v \<Rightarrow> (Inr v, [])
                   | None \<Rightarrow>
                       (Inl (APIError
                               (''Failed to parse API response: ''
                                  @ errorToString ''SyntaxError'' conversionError)
                               None []),
                        [\<lparr>level = Error, logMessage = ''Failed to parse response:'',
                          logArgs = [take 200 responseText]\<rparr>])))))"

subsection \<open>Decoding XML responses\<close>

definition parseXmlResponse :: "runtime \<Rightarrow> string \<Rightarrow> McpError + jsval" where
  "parseXmlResponse rt xmlString =
     (if xmlString = [] \<or> trim xmlString = [] then Inr (JObj [])
      else
        (case parseStringPromise rt xmlString of
           Inr result \<Rightarrow> if isNullish result then Inr (JObj []) else Inr result
         | Inl error \<Rightarrow> Inl (APIError (''Failed to parse XML response: '' @ error) None [])))"

subsection \<open>The methods of the client\<close>

text \<open>
  A request as the transport sees it. Form data and query parameters are kept as the
  pairs the client encodes, after it has dropped the values it does not send.
\<close>

datatype HttpRequest =
    GetXml string "(string \<times> jsval) list option"
  | PostForm string "(string \<times> jsval) list"
  | PostMultipart string string string

definition toFormData :: "(string \<times> jsval) list \<Rightarrow> (string \<times> jsval) list" where
  "toFormData data = filter (\<lambda>kv. \<not> isNullish (snd kv)) data"

definition filterUndefinedParams ::
  "(string \<times> jsval) list \<Rightarrow> (string \<times> jsval) list option" where
  "filterUndefinedParams params =
     (let filtered = filter (\<lambda>kv. snd kv \<noteq> JUndefined) params
      in if filtered \<noteq> [] then Some filtered else None)"

text \<open>
  Each method is given the behaviour of the upstream server for its request (the outcome of the
  \<open>k\<close>-th send) and returns what the caller receives together with the number of
  requests it sent.
\<close>

definition post ::
  "runtime \<Rightarrow> Config \<Rightarrow> (HttpRequest \<Rightarrow> nat \<Rightarrow> failure + string)
     \<Rightarrow> string \<Rightarrow> (string \<times> jsval) list \<Rightarrow> (thrown + jsval) \<times> nat" where
  "post rt cfg upstream endpoint data =
     (let run = executeWithRetry rt cfg
                  (clientRequest rt cfg (upstream (PostForm endpoint (toFormData data))))
      in (case outcome run of
            Inl e \<Rightarrow> Inl (Mcp e)
          | Inr body \<Rightarrow>
              (case fst (parseJsLiteralResponse rt body) of
                 Inl e \<Rightarrow> Inl (Mcp e)
               | Inr v \<Rightarrow> Inr v),
          attempts run))"

definition getXml ::
  "runtime \<Rightarrow> Config \<Rightarrow> (HttpRequest \<Rightarrow> nat \<Rightarrow> failure + string)
     \<Rightarrow> string \<Rightarrow> (string \<times> jsval) list \<Rightarrow> (thrown + jsval) \<times> nat" where
  "getXml rt cfg upstream endpoint params =
     (let run = executeWithRetry rt cfg
                  (clientRequest rt cfg (upstream (GetXml endpoint (filterUndefinedParams params))))
      in (case outcome run of
            Inl e \<Rightarrow> Inl (Mcp e)
          | Inr body \<Rightarrow>
              (case parseXmlResponse rt body of
                 Inl e \<Rightarrow> Inl (Mcp e)
               | Inr v \<Rightarrow> Inr v),
          attempts run))"

text \<open>
  \<open>uploadFile\<close>: the second argument tells which paths exist (\<open>fs.existsSync\<close>). The
  data of the response is returned as the transport delivers it.
\<close>

definition uploadFile ::
  "runtime \<Rightarrow> Config \<Rightarrow> (string \<Rightarrow> bool) \<Rightarrow> (HttpRequest \<Rightarrow> nat \<Rightarrow> failure + jsval)
     \<Rightarrow> string \<Rightarrow> string \<Rightarrow> string \<Rightarrow> (thrown + jsval) \<times> nat" where
  "uploadFile rt cfg existsSync upstream endpoint filePath fieldName =
     (if \<not> existsSync filePath then (Inl (newError rt (''File not found: '' @ filePath)), 0)
      else
        (let run = executeWithRetry rt cfg
                     (clientRequest rt cfg (upstream (PostMultipart endpoint fieldName filePath)))
         in (case outcome run of
               Inl e \<Rightarrow> Inl (Mcp e)
             | Inr data \<Rightarrow> Inr data,
             attempts run)))"

section \<open>Tool handlers (tools/handlers.ts)\<close>

text \<open>
  A handler receives the method of the client it calls and the validated input (an
  object; the identifiers to delete and the path to restore from are given as such). It
  returns the object it builds, or what is thrown.
\<close>

definition plain :: "jsval \<Rightarrow> string list \<Rightarrow> (string \<times> jsval) list" where
  "plain validated names = map (\<lambda>k. (k, field validated k)) names"

definition orEmpty :: "jsval \<Rightarrow> string list \<Rightarrow> (string \<times> jsval) list" where
  "orEmpty validated names = map (\<lambda>k. (k, orElse (field validated k) (JStr []))) names"

definition numOrZero :: "jsnum \<Rightarrow> jsnum" where
  "numOrZero n = (if truthy (JNum n) then n else Finite 0)"

definition transactionOfRow :: "runtime \<Rightarrow> jsval \<Rightarrow> thrown + jsval" where
  "transactionOfRow rt row =
     (if isNullish row then Inl (nullReadError rt row ''id'')
      else Inr (JObj
        [(''id'', field row ''id''), (''mbDate'', field row ''mbDate''),
         (''assetId'', field row ''assetId''), (''toAssetId'', field row ''toAssetId''),
         (''targetAssetId'', field row ''targetAssetId''), (''payType'', field row ''payType''),
         (''mcid'', field row ''mcid''), (''mbCategory'', field row ''mbCategory''),
         (''mcscid'', field row ''mcscid''), (''subCategory'', field row ''subCategory''),
         (''mbContent'', field row ''mbContent''),
         (''mbCash'', JNum (numOrZero (parseFloat rt (field row ''mbCash'')))),
         (''inOutCode'', field row ''inOutCode''), (''inOutType'', field row ''inOutType''),
         (''mbDetailContent'', field row ''mbDetailContent'')]))"

fun mapRows :: "runtime \<Rightarrow> jsval list \<Rightarrow> thrown + jsval list" where
  "mapRows rt [] = Inr []"
| "mapRows rt (row # rows) =
     (case transactionOfRow rt row of
        Inl e \<Rightarrow> Inl e
      | Inr t \<Rightarrow> (case mapRows rt rows of Inl e \<Rightarrow> Inl e | Inr ts \<Rightarrow> Inr (t # ts)))"

definition handleTransactionList ::
  "runtime \<Rightarrow> (string \<Rightarrow> (string \<times> jsval) list \<Rightarrow> thrown + jsval) \<Rightarrow> jsval
     \<Rightarrow> thrown + jsval" where
  "handleTransactionList rt httpGetXml validated =
     (case httpGetXml ''/getDataByPeriod''
             (plain validated [''startDate'', ''endDate'', ''mbid'', ''assetId'']) of
        Inl e \<Rightarrow> Inl e
      | Inr rawResponse \<Rightarrow>
          if \<not> truthy rawResponse \<or> \<not> truthy (field rawResponse ''dataset'')
          then Inr (JObj [(''count'', JNum (Finite 0)), (''transactions'', JArr [])])
          else if (case field rawResponse ''dataset'' of JStr s \<Rightarrow> True | _ \<Rightarrow> False)
          then Inr (JObj [(''count'', JNum (Finite 0)), (''transactions'', JArr [])])
          else
            (let dataset = field rawResponse ''dataset'';
                 count = parseInt10 rt (orElse (field dataset ''results'') (JStr ''0''))
             in if truthy (field dataset ''row'') then
                  (case mapRows rt (case field dataset ''row'' of JArr rows \<Rightarrow> rows
                                    | row \<Rightarrow> [row]) of
                     Inl e \<Rightarrow> Inl e
                   | Inr transactions \<Rightarrow>
                       Inr (JObj [(''count'', JNum count),
                                  (''transactions'', JArr transactions)]))
                else Inr (JObj [(''count'', JNum count), (''transactions'', JArr [])])))"

definition handleTransactionCreate ::
  "runtime \<Rightarrow> (string \<Rightarrow> (string \<times> jsval) list \<Rightarrow> thrown + jsval) \<Rightarrow> jsval
     \<Rightarrow> thrown + jsval" where
  "handleTransactionCreate rt httpPost validated =
     (case httpPost ''/create''
             (plain validated [''mbDate'', ''assetId'', ''payType'', ''mcid'', ''mbCategory'',
                               ''mbCash'', ''inOutCode'', ''inOutType'']
              @ orEmpty validated [''mcscid'', ''subCategory'', ''mbContent'',
                                   ''mbDetailContent'']) of
        Inl e \<Rightarrow> Inl e
      | Inr response \<Rightarrow>
          if isNullish response then Inl (nullReadError rt response ''success'')
          else Inr (JObj
            [(''success'', JBool (field response ''success'' \<noteq> JBool False
                                  \<and> field response ''result'' \<noteq> JStr ''fail'')),
             (''transactionId'', field response ''id''),
             (''message'', field response ''message'')]))"

definition handleTransactionUpdate ::
  "runtime \<Rightarrow> (string \<Rightarrow> (string \<times> jsval) list \<Rightarrow> thrown + jsval) \<Rightarrow> jsval
     \<Rightarrow> thrown + jsval" where
  "handleTransactionUpdate rt httpPost validated =
     (case httpPost ''/update''
             (plain validated [''id'', ''mbDate'', ''assetId'', ''payType'', ''mcid'',
                               ''mbCategory'', ''mbCash'', ''inOutCode'', ''inOutType'']
              @ orEmpty validated [''mcscid'', ''subCategory'', ''mbContent'',
                                   ''mbDetailContent'']) of
        Inl e \<Rightarrow> Inl e
      | Inr response \<Rightarrow>
          if isNullish response then Inl (nullReadError rt response ''success'')
          else Inr (JObj
            [(''success'', JBool (field response ''success'' \<noteq> JBool False
                                  \<and> field response ''result'' \<noteq> JStr ''fail'')),
             (''transactionId'', field validated ''id''),
             (''message'', field response ''message'')]))"

text \<open>\<open>":" + ids.join(":")\<close>.\<close>

definition idsString :: "string list \<Rightarrow> string" where
  "idsString ids = '':'' @ concat (case ids of [] \<Rightarrow> [] | i # rest \<Rightarrow> i # map (\<lambda>j. '':'' @ j) rest)"

definition handleTransactionDelete ::
  "runtime \<Rightarrow> (string \<Rightarrow> (string \<times> jsval) list \<Rightarrow> thrown + jsval) \<Rightarrow> string list
     \<Rightarrow> thrown + jsval" where
  "handleTransactionDelete rt httpPost ids =
     (case httpPost ''/delete'' [(''ids'', JStr (idsString ids))] of
        Inl e \<Rightarrow> Inl e
      | Inr response \<Rightarrow>
          if isNullish response then Inl (nullReadError rt response ''success'')
          else Inr (JObj
            [(''success'', JBool (field response ''success'' \<noteq> JBool False
                                  \<and> field response ''result'' \<noteq> JStr ''fail'')),
             (''deletedCount'', JNum (Finite (of_nat (length ids)))),
             (''message'', field response ''message'')]))"

definition handleAssetCreate ::
  "runtime \<Rightarrow> (string \<Rightarrow> (string \<times> jsval) list \<Rightarrow> thrown + jsval) \<Rightarrow> jsval
     \<Rightarrow> thrown + jsval" where
  "handleAssetCreate rt httpPost validated =
     (case httpPost ''/assetAdd''
             (plain validated [''assetGroupId'', ''assetGroupName'', ''assetName'',
                               ''assetMoney'']
              @ orEmpty validated [''linkAssetId'', ''linkAssetName'']) of
        Inl e \<Rightarrow> Inl e
      | Inr response \<Rightarrow>
          if isNullish response then Inl (nullReadError rt response ''success'')
          else Inr (JObj
            [(''success'', JBool (field response ''success'' \<noteq> JBool False
                                  \<and> field response ''result'' \<noteq> JStr ''fail'')),
             (''assetId'', field response ''assetId''),
             (''message'', field response ''message'')]))"

definition handleAssetUpdate ::
  "runtime \<Rightarrow> (string \<Rightarrow> (string \<times> jsval) list \<Rightarrow> thrown + jsval) \<Rightarrow> jsval
     \<Rightarrow> thrown + jsval" where
  "handleAssetUpdate rt httpPost validated =
     (case httpPost ''/assetModify''
             (plain validated [''assetId'', ''assetGroupId'', ''assetGroupName'', ''assetName'',
                               ''assetMoney'']
              @ orEmpty validated [''linkAssetId'', ''linkAssetName'']) of
        Inl e \<Rightarrow> Inl e
      | Inr response \<Rightarrow>
          if isNullish response then Inl (nullReadError rt response ''success'')
          else Inr (JObj
            [(''success'', JBool (field response ''success'' \<noteq> JBool False
                                  \<and> field response ''result'' \<noteq> JStr ''fail'')),
             (''assetId'', field validated ''assetId''),
             (''message'', field response ''message'')]))"

definition handleAssetDelete ::
  "runtime \<Rightarrow> (string \<Rightarrow> (string \<times> jsval) list \<Rightarrow> thrown + jsval) \<Rightarrow> jsval
     \<Rightarrow> thrown + jsval" where
  "handleAssetDelete rt httpPost validated =
     (case httpPost ''/removeAsset'' (plain validated [''assetId'']) of
        Inl e \<Rightarrow> Inl e
      | Inr response \<Rightarrow>
          if isNullish response then Inl (nullReadError rt response ''success'')
          else Inr (JObj
            [(''success'', JBool (field response ''success'' \<noteq> JBool False
                                  \<and> field response ''result'' \<noteq> JStr ''fail'')),
             (''assetId'', field validated ''assetId''),
             (''message'', field response ''message'')]))"

definition handleCardCreate ::
  "runtime \<Rightarrow> (string \<Rightarrow> (string \<times> jsval) list \<Rightarrow> thrown + jsval) \<Rightarrow> jsval
     \<Rightarrow> thrown + jsval" where
  "handleCardCreate rt httpPost validated =
     (case httpPost ''/addAssetCard''
             (plain validated [''cardName'', ''linkAssetId'', ''linkAssetName'', ''notPayMoney'',
                               ''jungsanDay'', ''paymentDay'']) of
        Inl e \<Rightarrow> Inl e
      | Inr response \<Rightarrow>
          if isNullish response then Inl (nullReadError rt response ''success'')
          else Inr (JObj
            [(''success'', JBool (field response ''success'' \<noteq> JBool False
                                  \<and> field response ''result'' \<noteq> JStr ''fail'')),
             (''cardId'', orElse (field response ''cardId'') (field response ''assetId'')),
             (''message'', field response ''message'')]))"

definition handleCardUpdate ::
  "runtime \<Rightarrow> (string \<Rightarrow> (string \<times> jsval) list \<Rightarrow> thrown + jsval) \<Rightarrow> jsval
     \<Rightarrow> thrown + jsval" where
  "handleCardUpdate rt httpPost validated =
     (case httpPost ''/modifyCard''
             (plain validated [''assetId'', ''cardName'', ''linkAssetId'', ''linkAssetName'',
                               ''jungsanDay'', ''paymentDay'']) of
        Inl e \<Rightarrow> Inl e
      | Inr response \<Rightarrow>
          if isNullish response then Inl (nullReadError rt response ''success'')
          else Inr (JObj
            [(''success'', JBool (field response ''success'' \<noteq> JBool False
                                  \<and> field response ''result'' \<noteq> JStr ''fail'')),
             (''cardId'', field validated ''assetId''),
             (''message'', field response ''message'')]))"

definition handleTransferCreate ::
  "runtime \<Rightarrow> (string \<Rightarrow> (string \<times> jsval) list \<Rightarrow> thrown + jsval) \<Rightarrow> jsval
     \<Rightarrow> thrown + jsval" where
  "handleTransferCreate rt httpPost validated =
     (case httpPost ''/moveAsset''
             (plain validated [''moveDate'', ''fromAssetId'', ''fromAssetName'', ''toAssetId'',
                               ''toAssetName'', ''moveMoney'']
              @ orEmpty validated [''moneyContent'', ''mbDetailContent'']) of
        Inl e \<Rightarrow> Inl e
      | Inr response \<Rightarrow>
          if isNullish response then Inl (nullReadError rt response ''success'')
          else Inr (JObj
            [(''success'', JBool (field response ''success'' \<noteq> JBool False
                                  \<and> field response ''result'' \<noteq> JStr ''fail'')),
             (''transferId'', orElse (field response ''transferId'') (field response ''id'')),
             (''message'', field response ''message'')]))"

definition transferUpdateWarning :: string where
  "transferUpdateWarning =
     ''WARNING: The server creates a new transfer with a NEW ID. The provided ID is now invalid. Use transaction_list to get the new ID.''"

definition handleTransferUpdate ::
  "runtime \<Rightarrow> (string \<Rightarrow> (string \<times> jsval) list \<Rightarrow> thrown + jsval) \<Rightarrow> jsval
     \<Rightarrow> thrown + jsval" where
  "handleTransferUpdate rt httpPost validated =
     (case httpPost ''/modifyMoveAsset''
             (plain validated [''id'', ''moveDate'', ''fromAssetId'', ''fromAssetName'',
                               ''toAssetId'', ''toAssetName'', ''moveMoney'']
              @ orEmpty validated [''moneyContent'', ''mbDetailContent'']) of
        Inl e \<Rightarrow> Inl e
      | Inr response \<Rightarrow>
          if isNullish response then Inl (nullReadError rt response ''success'')
          else Inr (JObj
            [(''success'', JBool (field response ''success'' \<noteq> JBool False
                                  \<and> field response ''result'' \<noteq> JStr ''fail'')),
             (''transferId'', field validated ''id''),
             (''message'', orElse (field response ''message'') (JStr transferUpdateWarning))]))"

text \<open>
  \<open>error instanceof Error\<close>, and the message of such an error. Every error of the
  taxonomy is an \<open>Error\<close>.
\<close>

fun errorMessage :: "thrown \<Rightarrow> string option" where
  "errorMessage (Mcp e) = Some (message e)"
| "errorMessage (JsError c msg stack) = Some msg"
| "errorMessage (NonError s) = None"

definition handleBackupRestore ::
  "runtime \<Rightarrow> (string \<Rightarrow> string \<Rightarrow> string \<Rightarrow> thrown + jsval) \<Rightarrow> string
     \<Rightarrow> thrown + jsval" where
  "handleBackupRestore rt httpUploadFile filePath =
     (case (case httpUploadFile ''/uploadSqlFile'' filePath ''file'' of
              Inl e \<Rightarrow> Inl e
            | Inr response \<Rightarrow>
                if isNullish response then Inl (nullReadError rt response ''success'')
                else Inr (JObj
                  [(''success'', JBool (field response ''success'' \<noteq> JBool False
                                        \<and> field response ''result'' \<noteq> JStr ''fail'')),
                   (''message'', orElse (field response ''message'')
                                   (JStr ''Database restored successfully''))])) of
        Inr result \<Rightarrow> Inr result
      | Inl error \<Rightarrow>
          (case errorMessage error of
             Some msg \<Rightarrow>
               if sublist ''File not found'' msg then Inl (Mcp (FileError_notFound filePath))
               else Inl (Mcp (wrapError rt error))
           | None \<Rightarrow> Inl (Mcp (wrapError rt error))))"

text \<open>
  A JSON text is a value between optional white space, so \<open>JSON.parse\<close> throws on a text
  that is empty or white space only. Of the runtime, this is all the theorem on valid JSON
  texts needs.
\<close>

definition rejectsBlankText :: "runtime \<Rightarrow> bool" where
  "rejectsBlankText rt \<longleftrightarrow> (\<forall>t. trim t = [] \<longrightarrow> (\<exists>m. jsonParse rt t = Inl m))"

section \<open>A parser for a fragment of JSON\<close>

text \<open>
  \<open>JSON.parse\<close> is a parameter of the model. Where a theorem is applied to a concrete
  text, the parameter is this parser, written after the JSON grammar (RFC 8259) for the
  texts whose numbers are integers of magnitude below \<open>2 ^ 53\<close> and whose strings
  have no \<open>\u\<close> escape. On such a text it computes the value \<open>JSON.parse\<close> computes,
  with a repeated key keeping its first place and its last value; any other text it
  rejects. The wording of the message for an unexpected token differs between engines;
  the message at the end of the input is the one V8 gives. The first argument of the
  scanning functions bounds the nesting depth; the length of the text is enough.
\<close>

definition isJsonWhiteSpace :: "char \<Rightarrow> bool" where
  "isJsonWhiteSpace c \<longleftrightarrow> c \<in> {CHR 0x20, CHR 0x09, CHR 0x0A, CHR 0x0D}"

definition isDigit :: "char \<Rightarrow> bool" where
  "isDigit c \<longleftrightarrow> of_char (CHR ''0'') \<le> (of_char c :: nat) \<and> (of_char c :: nat) \<le> of_char (CHR ''9'')"

definition unexpectedEnd :: string where
  "unexpectedEnd = ''Unexpected end of JSON input''"

definition unexpectedToken :: string where
  "unexpectedToken = ''Unexpected token in JSON''"

definition outsideFragment :: string where
  "outsideFragment = ''Outside the fragment''"

definition unescape :: "char \<Rightarrow> char option" where
  "unescape e =
     map_of [(CHR 0x22, CHR 0x22), (CHR 0x5C, CHR 0x5C), (CHR ''/'', CHR ''/''),
             (CHR ''b'', CHR 0x08), (CHR ''f'', CHR 0x0C), (CHR ''n'', CHR 0x0A),
             (CHR ''r'', CHR 0x0D), (CHR ''t'', CHR 0x09)] e"

fun scanString :: "string \<Rightarrow> string + (string \<times> string)" where
  "scanString [] = Inl unexpectedEnd"
| "scanString [c] = (if c = CHR 0x22 then Inr ([], []) else Inl unexpectedEnd)"
| "scanString (c # e # cs) =
     (if c = CHR 0x22 then Inr ([], e # cs)
      else if c = CHR 0x5C then
        (if e = CHR ''u'' then Inl outsideFragment
         else case unescape e of
           None \<Rightarrow> Inl unexpectedToken
         | Some ch \<Rightarrow>
             (case scanString cs of
                Inl m \<Rightarrow> Inl m
              | Inr (str, r) \<Rightarrow> Inr (ch # str, r)))
      else if (of_char c :: nat) < 32 then Inl unexpectedToken
      else (case scanString (e # cs) of
              Inl m \<Rightarrow> Inl m
            | Inr (str, r) \<Rightarrow> Inr (c # str, r)))"

definition decimalValue :: "string \<Rightarrow> int" where
  "decimalValue ds = foldl (\<lambda>n d. 10 * n + (of_char d - of_char (CHR ''0''))) 0 ds"

definition scanNumber :: "string \<Rightarrow> string + (jsval \<times> string)" where
  "scanNumber s =
     (let negative = (s \<noteq> [] \<and> hd s = CHR ''-'');
          r = (if negative then tl s else s);
          ds = takeWhile isDigit r;
          rest = dropWhile isDigit r
      in if ds = [] then Inl (if r = [] then unexpectedEnd else unexpectedToken)
         else if 1 < length ds \<and> hd ds = CHR ''0'' then Inl unexpectedToken
         else if rest \<noteq> [] \<and> hd rest \<in> {CHR ''.'', CHR ''e'', CHR ''E''} then Inl outsideFragment
         else if 2 ^ 53 \<le> decimalValue ds then Inl outsideFragment
         else Inr (JNum (Finite (if negative then - of_int (decimalValue ds)
                                 else of_int (decimalValue ds))), rest))"

fun setProperty :: "string \<Rightarrow> jsval \<Rightarrow> (string \<times> jsval) list \<Rightarrow> (string \<times> jsval) list" where
  "setProperty k v [] = [(k, v)]"
| "setProperty k v ((k', v') # ps) =
     (if k = k' then (k, v) # ps else (k', v') # setProperty k v ps)"

definition scanLiteral :: "string \<Rightarrow> jsval \<Rightarrow> string \<Rightarrow> string + (jsval \<times> string)" where
  "scanLiteral word v s =
     (if prefix word s then Inr (v, drop (length word) s)
      else if prefix s word then Inl unexpectedEnd
      else Inl unexpectedToken)"

fun scanValue :: "nat \<Rightarrow> string \<Rightarrow> string + (jsval \<times> string)"
  and scanElements :: "nat \<Rightarrow> jsval list \<Rightarrow> string \<Rightarrow> string + (jsval \<times> string)"
  and scanMembers :: "nat \<Rightarrow> (string \<times> jsval) list \<Rightarrow> string \<Rightarrow> string + (jsval \<times> string)"
where
  "scanValue 0 s = Inl outsideFragment"
| "scanValue (Suc fuel) s =
     (case dropWhile isJsonWhiteSpace s of
        [] \<Rightarrow> Inl unexpectedEnd
      | c # r \<Rightarrow>
          if c = CHR ''{'' then
            (case dropWhile isJsonWhiteSpace r of
               [] \<Rightarrow> Inl unexpectedEnd
             | d # r' \<Rightarrow> if d = CHR ''}'' then Inr (JObj [], r') else scanMembers fuel [] r)
          else if c = CHR ''['' then
            (case dropWhile isJsonWhiteSpace r of
               [] \<Rightarrow> Inl unexpectedEnd
             | d # r' \<Rightarrow> if d = CHR '']'' then Inr (JArr [], r') else scanElements fuel [] r)
          else if c = CHR 0x22 then
            (case scanString r of Inl m \<Rightarrow> Inl m | Inr (str, r') \<Rightarrow> Inr (JStr str, r'))
          else if c = CHR ''t'' then scanLiteral ''true'' (JBool True) (c # r)
          else if c = CHR ''f'' then scanLiteral ''false'' (JBool False) (c # r)
          else if c = CHR ''n'' then scanLiteral ''null'' JNull (c # r)
          else if c = CHR ''-'' \<or> isDigit c then scanNumber (c # r)
          else Inl unexpectedToken)"
| "scanElements 0 acc s = Inl outsideFragment"
| "scanElements (Suc fuel) acc s =
     (case scanValue fuel s of
        Inl m \<Rightarrow> Inl m
      | Inr (v, r) \<Rightarrow>
          (case dropWhile isJsonWhiteSpace r of
             [] \<Rightarrow> Inl unexpectedEnd
           | d # r' \<Rightarrow>
               if d = CHR '','' then scanElements fuel (acc @ [v]) r'
               else if d = CHR '']'' then Inr (JArr (acc @ [v]), r')
               else Inl unexpectedToken))"
| "scanMembers 0 acc s = Inl outsideFragment"
| "scanMembers (Suc fuel) acc s =
     (case dropWhile isJsonWhiteSpace s of
        [] \<Rightarrow> Inl unexpectedEnd
      | q # r \<Rightarrow>
          if q \<noteq> CHR 0x22 then Inl unexpectedToken
          else
            (case scanString r of
               Inl m \<Rightarrow> Inl m
             | Inr (k, r1) \<Rightarrow>
                 (case dropWhile isJsonWhiteSpace r1 of
                    [] \<Rightarrow> Inl unexpectedEnd
                  | colon # r2 \<Rightarrow>
                      if colon \<noteq> CHR '':'' then Inl unexpectedToken
                      else
                        (case scanValue fuel r2 of
                           Inl m \<Rightarrow> Inl m
                         | Inr (v, r3) \<Rightarrow>
                             (case dropWhile isJsonWhiteSpace r3 of
                                [] \<Rightarrow> Inl unexpectedEnd
                              | d # r4 \<Rightarrow>
                                  if d = CHR '','' then scanMembers fuel (setProperty k v acc) r4
                                  else if d = CHR ''}'' then Inr (JObj (setProperty k v acc), r4)
                                  else Inl unexpectedToken)))))"

definition jsonFragmentParse :: "string \<Rightarrow> string + jsval" where
  "jsonFragmentParse text =
     (case scanValue (Suc (length text)) text of
        Inl m \<Rightarrow> Inl m
      | Inr (v, r) \<Rightarrow>
          if dropWhile isJsonWhiteSpace r = [] then Inr v else Inl unexpectedToken)"

section \<open>Concrete inputs\<close>

text \<open>
  A runtime in which every parser rejects its input, every number function answers
  NaN or the empty string, and errors carry no stack. The theorems below hold for every runtime; this one is used
  where a theorem is applied to a concrete input that does not reach the built-ins.
\<close>

definition stubRuntime :: runtime where
  "stubRuntime =
     \<lparr>jsonParse = (\<lambda>t. Inl ''Unexpected end of JSON input''),
      runFunctionBody = (\<lambda>b. None),
      parseStringPromise = (\<lambda>t. Inl ''Error: Non-whitespace before first tag.''),
      numberToString = (\<lambda>n. []),
      parseInt10 = (\<lambda>v. NaN),
      parseFloat = (\<lambda>v. NaN),
      stackTrace = (\<lambda>m. None)\<rparr>"

text \<open>\<open>DEFAULT_CONFIG\<close> of config/index.ts.\<close>

definition DEFAULT_CONFIG :: Config where
  "DEFAULT_CONFIG =
     \<lparr>server = \<lparr>baseUrl = ''http://192.168.1.1:8888'', timeout = 30000,
                 retryCount = 3, retryDelay = 1000\<rparr>\<rparr>"

text \<open>A transport that answers every call with HTTP 404.\<close>

definition alwaysNotFound :: "nat \<Rightarrow> failure + string" where
  "alwaysNotFound k =
     Inl (AxiosError (Some 404) (Some ''ERR_BAD_REQUEST'')
            ''Request failed with status code 404'' (Some ''/getInitData''))"

text \<open>A request function refused twice by the server and answered the third time.\<close>

definition refusedTwice :: "nat \<Rightarrow> thrown + string" where
  "refusedTwice k =
     (if k < 2 then Inl (Mcp (NetworkError_connectionRefused ''http://192.168.1.1:8888''))
      else Inr ''ok'')"

text \<open>The stub with the JSON parser in the place of \<open>JSON.parse\<close>.\<close>

definition jsonRuntime :: runtime where
  "jsonRuntime = stubRuntime\<lparr>jsonParse := jsonFragmentParse\<rparr>"

text \<open>
  The object literal \<open>{initData:{mbid:'x'},category_0:[]}\<close> and the JSON text
  \<open>{"initData":{"mbid":"x"},"category_0":[]}\<close>.
\<close>

definition initDataLiteral :: string where
  "initDataLiteral =
     ''{initData:{mbid:'' @ [CHR 0x27] @ ''x'' @ [CHR 0x27] @ ''},category_0:[]}''"

definition initDataJson :: string where
  "initDataJson =
     ''{'' @ [CHR 0x22] @ ''initData'' @ [CHR 0x22] @ '':{'' @ [CHR 0x22] @ ''mbid''
       @ [CHR 0x22] @ '':'' @ [CHR 0x22] @ ''x'' @ [CHR 0x22] @ ''},'' @ [CHR 0x22]
       @ ''category_0'' @ [CHR 0x22] @ '':[]}''"

text \<open>A file system without files, and a server that accepts every upload.\<close>

definition noFiles :: "string \<Rightarrow> bool" where
  "noFiles path = False"

definition acceptingServer :: "HttpRequest \<Rightarrow> nat \<Rightarrow> failure + jsval" where
  "acceptingServer request k = Inr (JObj [(''result'', JStr ''success'')])"

text \<open>
  A client whose \<open>post\<close> answers every request with
  \<open>{success: true, message: "Transfer updated"}\<close>, and the input of a transfer update.
\<close>

definition updatedResponse :: jsval where
  "updatedResponse = JObj [(''success'', JBool True), (''message'', JStr ''Transfer updated'')]"

definition answeringUpdated :: "string \<Rightarrow> (string \<times> jsval) list \<Rightarrow> thrown + jsval" where
  "answeringUpdated endpoint data = Inr updatedResponse"

definition transferInput :: jsval where
  "transferInput =
     JObj [(''id'', JStr ''1701''), (''moveDate'', JStr ''2024-01-15''),
           (''fromAssetId'', JStr ''a1''), (''fromAssetName'', JStr ''Cash''),
           (''toAssetId'', JStr ''a2''), (''toAssetName'', JStr ''Bank''),
           (''moveMoney'', JNum (Finite 50))]"

text \<open>A server that answers every request with an empty body, and a refusing answer.\<close>

definition silentServer :: "HttpRequest \<Rightarrow> nat \<Rightarrow> failure + string" where
  "silentServer request k = Inr []"

definition failResponse :: jsval where
  "failResponse = JObj [(''result'', JStr ''fail'')]"

text \<open>
  The wording of V8 since Node 20 for an unexpected token in a text of fewer than 21
  characters, \<open>Unexpected token 'c', "text" is not valid JSON\<close>: it quotes the whole
  text. The parser below gives this message where the first character of the text that
  is not white space cannot begin a JSON value (the unexpected token is then that
  character), and the message of the parser above elsewhere.
\<close>

definition startsJsonValue :: "char \<Rightarrow> bool" where
  "startsJsonValue c \<longleftrightarrow>
     c \<in> {CHR ''{'', CHR ''['', CHR 0x22, CHR ''t'', CHR ''f'', CHR ''n'', CHR ''-''}
     \<or> isDigit c"

definition quotingMessage :: "char \<Rightarrow> string \<Rightarrow> string" where
  "quotingMessage c text =
     ''Unexpected token '' @ [CHR 0x27, c, CHR 0x27] @ '', '' @ [CHR 0x22] @ text
       @ [CHR 0x22] @ '' is not valid JSON''"

definition quotingJsonParse :: "string \<Rightarrow> string + jsval" where
  "quotingJsonParse text =
     (case jsonFragmentParse text of
        Inr v \<Rightarrow> Inr v
      | Inl m \<Rightarrow>
          (case dropWhile isJsonWhiteSpace text of
             [] \<Rightarrow> Inl m
           | c # r \<Rightarrow>
               if length text < 21 \<and> \<not> startsJsonValue c then Inl (quotingMessage c text)
               else Inl m))"

definition quotingRuntime :: runtime where
  "quotingRuntime = stubRuntime\<lparr>jsonParse := quotingJsonParse\<rparr>"

text \<open>
  The body \<open>{result:'fail'}\<close>, a server that answers every request with it, and a
  server that answers every upload with it; the transport hands a body that is not JSON
  over as a string. A file system in which every path exists.
\<close>

definition failBody :: string where
  "failBody = ''{result:'' @ [CHR 0x27] @ ''fail'' @ [CHR 0x27] @ ''}''"

definition refusingServer :: "HttpRequest \<Rightarrow> nat \<Rightarrow> failure + string" where
  "refusingServer request k = Inr failBody"

definition refusingUploadServer :: "HttpRequest \<Rightarrow> nat \<Rightarrow> failure + jsval" where
  "refusingUploadServer request k = Inr (JStr failBody)"

definition everyFile :: "string \<Rightarrow> bool" where
  "everyFile path = True"

section \<open>Properties of the retry loop\<close>

lemma retryLoop_attempts_bound:
  "of_nat a \<le> retryCount (server cfg) + 1
   \<Longrightarrow> of_nat (attempts (retryLoop rt cfg f a le sl lg)) \<le> retryCount (server cfg) + 1"
proof (induction rt cfg f a le sl lg rule: retryLoop.induct)
  case (1 rt cfg requestFn attempt lastError slept logged)
  show ?case
  proof (cases "of_nat attempt \<le> retryCount (server cfg)")
    case False
    then show ?thesis using "1.prems" by (subst retryLoop.simps) simp
  next
    case inloop: True
    show ?thesis
    proof (cases "requestFn attempt")
      case (Inr response)
      then show ?thesis using inloop by (subst retryLoop.simps) simp
    next
      case (Inl error)
      show ?thesis
      proof (cases "\<not> retryable (wrapError rt error)
                    \<or> of_nat attempt \<ge> retryCount (server cfg)")
        case True
        then show ?thesis using inloop Inl by (subst retryLoop.simps) auto
      next
        case False
        then show ?thesis
          using "1.IH"[OF inloop Inl] inloop Inl
          by (subst retryLoop.simps) auto
      qed
    qed
  qed
qed

text \<open>
  The shape of a run started at attempt \<open>a\<close>: the loop adds one delay
  \<open>retryDelay * 2 ^ k\<close> for each attempt \<open>k\<close> it leaves through the retry branch, these
  attempts are consecutive from \<open>a\<close>, each of them failed with a retryable error, and at
  most one more attempt follows them.
\<close>

lemma retryLoop_trace:
  "\<exists>n. sleeps (retryLoop rt cfg f a le sl lg)
          = sl @ map (\<lambda>k. retryDelay (server cfg) * 2 ^ k) [a..<a + n]
      \<and> a + n \<le> attempts (retryLoop rt cfg f a le sl lg)
      \<and> attempts (retryLoop rt cfg f a le sl lg) \<le> Suc (a + n)
      \<and> (\<forall>k. a \<le> k \<and> k < a + n \<longrightarrow> (\<exists>e. f k = Inl e \<and> retryable (wrapError rt e)))"
proof (induction rt cfg f a le sl lg rule: retryLoop.induct)
  case (1 rt cfg requestFn attempt lastError slept logged)
  let ?run = "retryLoop rt cfg requestFn attempt lastError slept logged"
  show ?case
  proof (cases "of_nat attempt \<le> retryCount (server cfg)")
    case False
    then have "sleeps ?run = slept" and "attempts ?run = attempt"
      by (subst retryLoop.simps, simp)+
    then show ?thesis by (intro exI[of _ 0]) auto
  next
    case inloop: True
    show ?thesis
    proof (cases "requestFn attempt")
      case (Inr response)
      then have "sleeps ?run = slept" and "attempts ?run = Suc attempt"
        using inloop by (subst retryLoop.simps, simp)+
      then show ?thesis by (intro exI[of _ 0]) auto
    next
      case (Inl error)
      show ?thesis
      proof (cases "\<not> retryable (wrapError rt error)
                    \<or> of_nat attempt \<ge> retryCount (server cfg)")
        case True
        then have "sleeps ?run = slept" and "attempts ?run = Suc attempt"
          using inloop Inl by (subst retryLoop.simps, auto)+
        then show ?thesis by (intro exI[of _ 0]) auto
      next
        case False
        let ?d = "retryDelay (server cfg) * 2 ^ attempt"
        let ?next = "retryLoop rt cfg requestFn (Suc attempt) (Some (wrapError rt error))
                       (slept @ [?d])
                       (logged @ [retryWarning rt ?d attempt (retryCount (server cfg))])"
        have step: "?run = ?next"
          using False inloop Inl by (subst retryLoop.simps) auto
        from "1.IH"[OF inloop Inl False]
        obtain n where n:
          "sleeps ?next = (slept @ [?d])
             @ map (\<lambda>k. retryDelay (server cfg) * 2 ^ k) [Suc attempt..<Suc attempt + n]"
          "Suc attempt + n \<le> attempts ?next" "attempts ?next \<le> Suc (Suc attempt + n)"
          "\<forall>k. Suc attempt \<le> k \<and> k < Suc attempt + n
               \<longrightarrow> (\<exists>e. requestFn k = Inl e \<and> retryable (wrapError rt e))"
          by blast
        have "sleeps ?next
                = slept @ map (\<lambda>k. retryDelay (server cfg) * 2 ^ k) [attempt..<attempt + Suc n]"
          using n(1) by (simp add: upt_conv_Cons)
        moreover have "\<forall>k. attempt \<le> k \<and> k < attempt + Suc n
                         \<longrightarrow> (\<exists>e. requestFn k = Inl e \<and> retryable (wrapError rt e))"
        proof (intro allI impI)
          fix k assume k: "attempt \<le> k \<and> k < attempt + Suc n"
          show "\<exists>e. requestFn k = Inl e \<and> retryable (wrapError rt e)"
          proof (cases "k = attempt")
            case True
            then show ?thesis using Inl False by simp
          next
            case False
            then show ?thesis using k n(4) by simp
          qed
        qed
        ultimately show ?thesis
          unfolding step using n(2,3) by (intro exI[of _ "Suc n"]) simp
      qed
    qed
  qed
qed

lemma backoff_strict:
  "0 < d \<Longrightarrow> sorted_wrt (<) (map (\<lambda>k. (d::rat) * 2 ^ k) [a..<b])"
  by (simp add: sorted_wrt_map sorted_wrt_iff_nth_less)

lemma retry_scenario:
  assumes "retryCount (server cfg) = 3"
    and "f 0 = Inl e0" and "retryable (wrapError rt e0)"
    and "f 1 = Inl e1" and "retryable (wrapError rt e1)"
    and "f 2 = Inr v"
  shows "outcome (executeWithRetry rt cfg f) = Inr v"
    and "attempts (executeWithRetry rt cfg f) = 3"
    and "sleeps (executeWithRetry rt cfg f)
           = [retryDelay (server cfg) * 2 ^ 0, retryDelay (server cfg) * 2 ^ 1]"
  unfolding executeWithRetry_def
  using assms
  by (subst retryLoop.simps, subst retryLoop.simps, subst retryLoop.simps,
      simp add: numeral_2_eq_2 numeral_3_eq_3)+

lemma not_found_once:
  assumes "0 \<le> retryCount (server cfg)"
    and "transport 0 = Inl (AxiosError (Some 404) c msg u)"
  shows "executeWithRetry rt cfg (clientRequest rt cfg transport) =
     \<lparr>outcome = Inl (APIError_fromStatusCode 404 (Some msg)), attempts = 1, sleeps = [],
      logCalls = []\<rparr>"
  unfolding executeWithRetry_def
  using assms
  by (subst retryLoop.simps)
     (simp add: clientRequest_def APIError_fromStatusCode_def APIError_def)

text \<open>
  Claim C1. When every call of the transport is answered with HTTP 404, the executor
  calls the request function once, never sleeps, and throws the classified error, whose
  category is API and which is not retryable. The configuration is one the schema accepts.
\<close>

theorem not_found_fails_on_first_attempt:
  assumes "ConfigSchema cfg"
    and "\<forall>k. \<exists>c msg u. transport k = Inl (AxiosError (Some 404) c msg u)"
  shows "\<exists>e. outcome (executeWithRetry rt cfg (clientRequest rt cfg transport)) = Inl e
            \<and> category e = API \<and> \<not> retryable e
            \<and> attempts (executeWithRetry rt cfg (clientRequest rt cfg transport)) = 1
            \<and> sleeps (executeWithRetry rt cfg (clientRequest rt cfg transport)) = []"
proof -
  from assms(2) obtain c msg u where t0: "transport 0 = Inl (AxiosError (Some 404) c msg u)"
    by blast
  have rc: "0 \<le> retryCount (server cfg)"
    using assms(1) by (simp add: ConfigSchema_def)
  show ?thesis
    unfolding not_found_once[where transport=transport and cfg=cfg, OF rc t0]
    by (simp add: APIError_fromStatusCode_def APIError_def)
qed

text \<open>The same at the default configuration, for a transport that always answers 404.\<close>

theorem not_found_fails_on_first_attempt_witness:
  "ConfigSchema DEFAULT_CONFIG
   \<and> alwaysNotFound 7 = Inl (AxiosError (Some 404) (Some ''ERR_BAD_REQUEST'')
            ''Request failed with status code 404'' (Some ''/getInitData''))
   \<and> (\<exists>e. outcome (executeWithRetry stubRuntime DEFAULT_CONFIG
                      (clientRequest stubRuntime DEFAULT_CONFIG alwaysNotFound)) = Inl e
          \<and> category e = API \<and> \<not> retryable e)
   \<and> attempts (executeWithRetry stubRuntime DEFAULT_CONFIG
                      (clientRequest stubRuntime DEFAULT_CONFIG alwaysNotFound)) = 1"
proof -
  have v: "ConfigSchema DEFAULT_CONFIG"
    by (simp add: ConfigSchema_def DEFAULT_CONFIG_def)
  have h: "\<forall>k. \<exists>c msg u. alwaysNotFound k = Inl (AxiosError (Some 404) c msg u)"
    by (simp add: alwaysNotFound_def)
  have a: "alwaysNotFound 7 = Inl (AxiosError (Some 404) (Some ''ERR_BAD_REQUEST'')
            ''Request failed with status code 404'' (Some ''/getInitData''))"
    by (simp add: alwaysNotFound_def)
  from not_found_fails_on_first_attempt[OF v h, of stubRuntime]
  show ?thesis using v a by auto
qed

text \<open>
  Claim C2. For every request function and every configuration the schema accepts:
  the executor calls the request function at most \<open>retryCount + 1\<close> times; every attempt
  \<open>k\<close> that is followed by another one failed with a retryable error and was followed by
  a sleep of exactly \<open>retryDelay * 2 ^ k\<close>; every sleep has that length, so the delays
  increase strictly; and with \<open>retryCount = 3\<close>, two retryable failures and then an
  answer, the executor returns the answer after three attempts and the second delay lies
  in \<open>[retryDelay * 2 ^ 1, retryDelay * 2 ^ 2)\<close>.
\<close>

theorem bounded_attempts_exponential_backoff:
  assumes "ConfigSchema cfg"
  shows "of_nat (attempts (executeWithRetry rt cfg f)) \<le> retryCount (server cfg) + 1
    \<and> (\<forall>k. Suc k < attempts (executeWithRetry rt cfg f) \<longrightarrow>
          (\<exists>e. f k = Inl e \<and> retryable (wrapError rt e))
          \<and> k < length (sleeps (executeWithRetry rt cfg f))
          \<and> sleeps (executeWithRetry rt cfg f) ! k = retryDelay (server cfg) * 2 ^ k)
    \<and> (\<forall>k. k < length (sleeps (executeWithRetry rt cfg f)) \<longrightarrow>
          sleeps (executeWithRetry rt cfg f) ! k = retryDelay (server cfg) * 2 ^ k)
    \<and> sorted_wrt (<) (sleeps (executeWithRetry rt cfg f))
    \<and> (retryCount (server cfg) = 3
         \<and> (\<exists>e. f 0 = Inl e \<and> retryable (wrapError rt e))
         \<and> (\<exists>e. f 1 = Inl e \<and> retryable (wrapError rt e))
         \<and> f 2 = Inr v
       \<longrightarrow> outcome (executeWithRetry rt cfg f) = Inr v
         \<and> attempts (executeWithRetry rt cfg f) = 3
         \<and> length (sleeps (executeWithRetry rt cfg f)) = 2
         \<and> retryDelay (server cfg) * 2 ^ 1 \<le> sleeps (executeWithRetry rt cfg f) ! 1
         \<and> sleeps (executeWithRetry rt cfg f) ! 1 < retryDelay (server cfg) * 2 ^ 2)"
proof -
  let ?r = "executeWithRetry rt cfg f"
  let ?g = "\<lambda>k. retryDelay (server cfg) * 2 ^ k"
  have rc: "0 \<le> retryCount (server cfg)" and rd: "0 < retryDelay (server cfg)"
    using assms by (simp_all add: ConfigSchema_def)
  from retryLoop_trace[of rt cfg f 0 None "[]" "[]"]
  obtain n where n: "sleeps ?r = map ?g [0..<n]" "n \<le> attempts ?r" "attempts ?r \<le> Suc n"
    "\<forall>k. k < n \<longrightarrow> (\<exists>e. f k = Inl e \<and> retryable (wrapError rt e))"
    unfolding executeWithRetry_def by auto
  have len: "length (sleeps ?r) = n" using n(1) by simp
  have bound: "of_nat (attempts ?r) \<le> retryCount (server cfg) + 1"
    unfolding executeWithRetry_def
    using rc by (intro retryLoop_attempts_bound) simp
  have before: "\<forall>k. Suc k < attempts ?r \<longrightarrow>
          (\<exists>e. f k = Inl e \<and> retryable (wrapError rt e))
          \<and> k < length (sleeps ?r) \<and> sleeps ?r ! k = ?g k"
  proof (intro allI impI)
    fix k assume "Suc k < attempts ?r"
    then have "k < n" using n(3) by simp
    then show "(\<exists>e. f k = Inl e \<and> retryable (wrapError rt e))
          \<and> k < length (sleeps ?r) \<and> sleeps ?r ! k = ?g k"
      using n(4) len by (simp add: n(1))
  qed
  have each: "\<forall>k. k < length (sleeps ?r) \<longrightarrow> sleeps ?r ! k = ?g k"
    using len by (simp add: n(1))
  have incr: "sorted_wrt (<) (sleeps ?r)"
    unfolding n(1) using rd by (rule backoff_strict)
  have scen: "retryCount (server cfg) = 3
         \<and> (\<exists>e. f 0 = Inl e \<and> retryable (wrapError rt e))
         \<and> (\<exists>e. f 1 = Inl e \<and> retryable (wrapError rt e))
         \<and> f 2 = Inr v
       \<longrightarrow> outcome ?r = Inr v \<and> attempts ?r = 3 \<and> length (sleeps ?r) = 2
         \<and> ?g 1 \<le> sleeps ?r ! 1 \<and> sleeps ?r ! 1 < ?g 2"
  proof (intro impI)
    assume a: "retryCount (server cfg) = 3
         \<and> (\<exists>e. f 0 = Inl e \<and> retryable (wrapError rt e))
         \<and> (\<exists>e. f 1 = Inl e \<and> retryable (wrapError rt e))
         \<and> f 2 = Inr v"
    then obtain e0 e1 where e: "f 0 = Inl e0" "retryable (wrapError rt e0)"
      "f 1 = Inl e1" "retryable (wrapError rt e1)" by blast
    from a have three: "retryCount (server cfg) = 3" and ok: "f 2 = Inr v" by simp_all
    note s = retry_scenario[OF three e ok]
    show "outcome ?r = Inr v \<and> attempts ?r = 3 \<and> length (sleeps ?r) = 2
         \<and> ?g 1 \<le> sleeps ?r ! 1 \<and> sleeps ?r ! 1 < ?g 2"
      using rd by (simp add: s)
  qed
  from bound before each incr scen show ?thesis by blast
qed

text \<open>
  The scenario at the default configuration (three retries, one second): connection
  refused twice, then an answer; the delays are 1000 and 2000 milliseconds.
\<close>

theorem bounded_attempts_exponential_backoff_witness:
  "ConfigSchema DEFAULT_CONFIG
   \<and> retryCount (server DEFAULT_CONFIG) = 3
   \<and> refusedTwice 0 = Inl (Mcp (NetworkError_connectionRefused ''http://192.168.1.1:8888''))
   \<and> refusedTwice 1 = Inl (Mcp (NetworkError_connectionRefused ''http://192.168.1.1:8888''))
   \<and> retryable (wrapError stubRuntime
        (Mcp (NetworkError_connectionRefused ''http://192.168.1.1:8888'')))
   \<and> refusedTwice 2 = Inr ''ok''
   \<and> outcome (executeWithRetry stubRuntime DEFAULT_CONFIG refusedTwice) = Inr ''ok''
   \<and> attempts (executeWithRetry stubRuntime DEFAULT_CONFIG refusedTwice) = 3
   \<and> sleeps (executeWithRetry stubRuntime DEFAULT_CONFIG refusedTwice) ! 0 = 1000
   \<and> sleeps (executeWithRetry stubRuntime DEFAULT_CONFIG refusedTwice) ! 1 = 2000
   \<and> sorted_wrt (<) (sleeps (executeWithRetry stubRuntime DEFAULT_CONFIG refusedTwice))"
proof -
  have v: "ConfigSchema DEFAULT_CONFIG"
    by (simp add: ConfigSchema_def DEFAULT_CONFIG_def)
  have three: "retryCount (server DEFAULT_CONFIG) = 3"
    and delay: "retryDelay (server DEFAULT_CONFIG) = 1000"
    by (simp_all add: DEFAULT_CONFIG_def)
  have r: "retryable (wrapError stubRuntime
        (Mcp (NetworkError_connectionRefused ''http://192.168.1.1:8888'')))"
    by (simp add: NetworkError_connectionRefused_def NetworkError_def)
  have f: "refusedTwice 0 = Inl (Mcp (NetworkError_connectionRefused ''http://192.168.1.1:8888''))"
    "refusedTwice 1 = Inl (Mcp (NetworkError_connectionRefused ''http://192.168.1.1:8888''))"
    "refusedTwice 2 = Inr ''ok''"
    by (simp_all add: refusedTwice_def)
  note t = bounded_attempts_exponential_backoff[OF v, of stubRuntime refusedTwice "''ok''"]
  have att: "attempts (executeWithRetry stubRuntime DEFAULT_CONFIG refusedTwice) = 3"
    and out: "outcome (executeWithRetry stubRuntime DEFAULT_CONFIG refusedTwice) = Inr ''ok''"
    using t three r f by auto
  have s0: "sleeps (executeWithRetry stubRuntime DEFAULT_CONFIG refusedTwice) ! 0 = 1000"
    and s1: "sleeps (executeWithRetry stubRuntime DEFAULT_CONFIG refusedTwice) ! 1 = 2000"
    using t att delay by auto
  from t have "sorted_wrt (<) (sleeps (executeWithRetry stubRuntime DEFAULT_CONFIG refusedTwice))"
    by blast
  with v three r f att out s0 s1 show ?thesis by simp
qed

section \<open>Properties of the decoder\<close>

lemma trim_blank: "(trim s = []) = (\<forall>c\<in>set s. isWhiteSpace c)"
proof -
  have "(\<forall>x\<in>set (dropWhile isWhiteSpace s). isWhiteSpace x) = (dropWhile isWhiteSpace s = [])"
  proof (cases "dropWhile isWhiteSpace s")
    case Nil
    then show ?thesis by (simp del: dropWhile_eq_Nil_conv)
  next
    case (Cons y ys)
    then have "\<not> isWhiteSpace y" using hd_dropWhile[of isWhiteSpace s] by auto
    then show ?thesis using Cons by auto
  qed
  then show ?thesis
    by (simp add: trim_def dropWhile_eq_Nil_conv)
qed

lemma jsonFragmentParse_rejects_blank:
  assumes "trim t = []"
  shows "\<exists>m. jsonFragmentParse t = Inl m"
proof (cases "dropWhile isJsonWhiteSpace t")
  case Nil
  then have "scanValue (Suc (length t)) t = Inl unexpectedEnd"
    by (simp del: dropWhile_eq_Nil_conv)
  then show ?thesis by (simp add: jsonFragmentParse_def)
next
  case (Cons c r)
  then have "c \<in> set t" by (metis list.set_intros(1) set_dropWhileD)
  then have ws: "isWhiteSpace c" using assms by (simp add: trim_blank)
  have "\<not> isJsonWhiteSpace c" using Cons hd_dropWhile[of isJsonWhiteSpace t] by auto
  then have c: "c = CHR 0x0B \<or> c = CHR 0x0C \<or> c = CHR 0xA0"
    using ws by (auto simp: isWhiteSpace_def isJsonWhiteSpace_def)
  have "scanValue (Suc (length t)) t
          = (if c = CHR ''{'' then
               (case dropWhile isJsonWhiteSpace r of
                  [] \<Rightarrow> Inl unexpectedEnd
                | d # r' \<Rightarrow> if d = CHR ''}'' then Inr (JObj [], r')
                            else scanMembers (length t) [] r)
             else if c = CHR ''['' then
               (case dropWhile isJsonWhiteSpace r of
                  [] \<Rightarrow> Inl unexpectedEnd
                | d # r' \<Rightarrow> if d = CHR '']'' then Inr (JArr [], r')
                            else scanElements (length t) [] r)
             else if c = CHR 0x22 then
               (case scanString r of Inl m \<Rightarrow> Inl m | Inr (str, r') \<Rightarrow> Inr (JStr str, r'))
             else if c = CHR ''t'' then scanLiteral ''true'' (JBool True) (c # r)
             else if c = CHR ''f'' then scanLiteral ''false'' (JBool False) (c # r)
             else if c = CHR ''n'' then scanLiteral ''null'' JNull (c # r)
             else if c = CHR ''-'' \<or> isDigit c then scanNumber (c # r)
             else Inl unexpectedToken)"
    unfolding scanValue.simps Cons by simp
  also have "\<dots> = Inl unexpectedToken"
    using c by (elim disjE) (simp_all add: isDigit_def)
  finally show ?thesis by (simp add: jsonFragmentParse_def)
qed

lemma initData_normalized: "convertJsLiteralToJson initDataLiteral = initDataJson"
  by (simp add: initDataLiteral_def initDataJson_def convertJsLiteralToJson_def matchKey_def
        isWhiteSpace_def isIdentStart_def isIdentPart_def isLineTerminator_def)

lemma initData_parsed:
  "jsonFragmentParse initDataJson
     = Inr (JObj [(''initData'', JObj [(''mbid'', JStr ''x'')]), (''category_0'', JArr [])])"
  by code_simp

lemma initData_not_json: "jsonFragmentParse initDataLiteral = Inl unexpectedToken"
  by code_simp

lemma initData_not_blank: "trim initDataLiteral \<noteq> []"
  by (simp add: trim_blank initDataLiteral_def isWhiteSpace_def)

text \<open>
  Claim C7. A text that is empty or consists of white space only decodes to the empty
  object; nothing is thrown and nothing is logged, whatever the runtime.
\<close>

theorem blank_text_decodes_to_empty_object:
  assumes "\<forall>c\<in>set text. isWhiteSpace c"
  shows "parseJsLiteralResponse rt text = (Inr (JObj []), [])"
  using assms by (simp add: parseJsLiteralResponse_def trim_blank)

text \<open>The empty text, three spaces, and a space, a tab and a line feed.\<close>

theorem blank_text_decodes_to_empty_object_witness:
  "isWhiteSpace (CHR 0x20) \<and> isWhiteSpace (CHR 0x09) \<and> isWhiteSpace (CHR 0x0A)
   \<and> parseJsLiteralResponse jsonRuntime [] = (Inr (JObj []), [])
   \<and> parseJsLiteralResponse jsonRuntime ''   '' = (Inr (JObj []), [])
   \<and> parseJsLiteralResponse jsonRuntime [CHR 0x20, CHR 0x09, CHR 0x0A] = (Inr (JObj []), [])"
  using blank_text_decodes_to_empty_object[of "[]" jsonRuntime]
    blank_text_decodes_to_empty_object[of "''   ''" jsonRuntime]
    blank_text_decodes_to_empty_object[of "[CHR 0x20, CHR 0x09, CHR 0x0A]" jsonRuntime]
  by (simp add: isWhiteSpace_def)

text \<open>
  Claim C8. When \<open>JSON.parse\<close> accepts the text, the decoder returns the very value
  \<open>JSON.parse\<close> returned, and logs nothing; the result does not depend on the
  normalization or on the evaluation of the text, which are the later steps.
\<close>

theorem valid_json_decodes_as_json_parse:
  assumes "rejectsBlankText rt"
    and "jsonParse rt text = Inr v"
  shows "parseJsLiteralResponse rt text = (Inr v, [])"
proof -
  have "trim text \<noteq> []"
    using assms by (auto simp: rejectsBlankText_def)
  moreover from this have "text \<noteq> []" by (auto simp: trim_def)
  ultimately show ?thesis
    using assms(2) by (simp add: parseJsLiteralResponse_def)
qed

lemma jsonRuntime_rejects_blank: "rejectsBlankText jsonRuntime"
  using jsonFragmentParse_rejects_blank
  by (simp add: rejectsBlankText_def jsonRuntime_def stubRuntime_def)

text \<open>The JSON parser above rejects blank texts, and it accepts the JSON text of the example.\<close>

theorem valid_json_decodes_as_json_parse_witness:
  "rejectsBlankText jsonRuntime
   \<and> jsonParse jsonRuntime initDataJson
       = Inr (JObj [(''initData'', JObj [(''mbid'', JStr ''x'')]), (''category_0'', JArr [])])
   \<and> parseJsLiteralResponse jsonRuntime initDataJson
       = (Inr (JObj [(''initData'', JObj [(''mbid'', JStr ''x'')]), (''category_0'', JArr [])]), [])"
proof -
  have p: "jsonParse jsonRuntime initDataJson
       = Inr (JObj [(''initData'', JObj [(''mbid'', JStr ''x'')]), (''category_0'', JArr [])])"
    by (simp add: jsonRuntime_def stubRuntime_def initData_parsed)
  from valid_json_decodes_as_json_parse[OF jsonRuntime_rejects_blank p]
  show ?thesis using jsonRuntime_rejects_blank p by simp
qed

text \<open>
  Claim C9. The normalization turns \<open>{initData:{mbid:'x'},category_0:[]}\<close> into
  \<open>{"initData":{"mbid":"x"},"category_0":[]}\<close>; hence, for every runtime whose
  \<open>JSON.parse\<close> rejects the first text and accepts the second, the decoder returns the
  value of the second; with the JSON parser above it is the object with \<open>initData\<close>
  \<open>{mbid: "x"}\<close> and \<open>category_0\<close> the empty array.
\<close>

theorem initData_literal_decoded:
  "convertJsLiteralToJson initDataLiteral = initDataJson
   \<and> (\<forall>rt v. (\<exists>m. jsonParse rt initDataLiteral = Inl m) \<and> jsonParse rt initDataJson = Inr v
          \<longrightarrow> parseJsLiteralResponse rt initDataLiteral = (Inr v, []))
   \<and> parseJsLiteralResponse jsonRuntime initDataLiteral
       = (Inr (JObj [(''initData'', JObj [(''mbid'', JStr ''x'')]), (''category_0'', JArr [])]), [])"
proof -
  have gen: "parseJsLiteralResponse rt initDataLiteral = (Inr v, [])"
    if "\<exists>m. jsonParse rt initDataLiteral = Inl m" and "jsonParse rt initDataJson = Inr v"
    for rt v
  proof -
    have "initDataLiteral \<noteq> []" using initData_not_blank by (auto simp: trim_def)
    then show ?thesis
      using that initData_not_blank
      by (auto simp: parseJsLiteralResponse_def initData_normalized)
  qed
  have "parseJsLiteralResponse jsonRuntime initDataLiteral
       = (Inr (JObj [(''initData'', JObj [(''mbid'', JStr ''x'')]), (''category_0'', JArr [])]), [])"
    by (rule gen) (simp_all add: jsonRuntime_def stubRuntime_def initData_parsed initData_not_json)
  with gen initData_normalized show ?thesis by blast
qed

text \<open>The JSON parser above rejects the literal and accepts its normalization.\<close>

theorem initData_literal_decoded_witness:
  "(\<exists>m. jsonParse jsonRuntime initDataLiteral = Inl m)
   \<and> jsonParse jsonRuntime initDataJson
       = Inr (JObj [(''initData'', JObj [(''mbid'', JStr ''x'')]), (''category_0'', JArr [])])
   \<and> fst (parseJsLiteralResponse jsonRuntime initDataLiteral)
       = Inr (JObj [(''initData'', JObj [(''mbid'', JStr ''x'')]), (''category_0'', JArr [])])"
proof -
  have a: "\<exists>m. jsonParse jsonRuntime initDataLiteral = Inl m"
    by (simp add: jsonRuntime_def stubRuntime_def initData_not_json)
  have b: "jsonParse jsonRuntime initDataJson
       = Inr (JObj [(''initData'', JObj [(''mbid'', JStr ''x'')]), (''category_0'', JArr [])])"
    by (simp add: jsonRuntime_def stubRuntime_def initData_parsed)
  from initData_literal_decoded a b
  have "parseJsLiteralResponse jsonRuntime initDataLiteral
       = (Inr (JObj [(''initData'', JObj [(''mbid'', JStr ''x'')]), (''category_0'', JArr [])]), [])"
    by blast
  with a b show ?thesis by simp
qed

text \<open>
  Claim C3, as the code has it. When the three steps fail, the decoder throws an
  \<open>APIError\<close> (category API, not retryable) whose message is
  \<open>Failed to parse API response: \<close> followed by the rendering of the error of the second
  step, and it passes the first 200 characters of the text to the error log. Of the text,
  the error carries what the message of the parser carries and nothing more: another text
  that fails the three steps with the same error of the second step yields the same
  error.
\<close>

theorem undecodable_text_error_and_log:
  assumes "trim text \<noteq> []"
    and "jsonParse rt text = Inl strictError"
    and "jsonParse rt (convertJsLiteralToJson text) = Inl conversionError"
    and "runFunctionBody rt (''return ('' @ text @ '');'') = None"
  shows "parseJsLiteralResponse rt text =
           (Inl (APIError (''Failed to parse API response: ''
                             @ errorToString ''SyntaxError'' conversionError) None []),
            [\<lparr>level = Error, logMessage = ''Failed to parse response:'',
              logArgs = [take 200 text]\<rparr>])
         \<and> category (APIError (''Failed to parse API response: ''
                             @ errorToString ''SyntaxError'' conversionError) None []) = API
         \<and> \<not> retryable (APIError (''Failed to parse API response: ''
                             @ errorToString ''SyntaxError'' conversionError) None [])
         \<and> message (APIError (''Failed to parse API response: ''
                             @ errorToString ''SyntaxError'' conversionError) None [])
             = ''Failed to parse API response: '' @ errorToString ''SyntaxError'' conversionError
         \<and> (\<forall>other otherError.
               trim other \<noteq> [] \<and> jsonParse rt other = Inl otherError
               \<and> jsonParse rt (convertJsLiteralToJson other) = Inl conversionError
               \<and> runFunctionBody rt (''return ('' @ other @ '');'') = None
               \<longrightarrow> fst (parseJsLiteralResponse rt other) = fst (parseJsLiteralResponse rt text))"
proof -
  have thrown: "fst (parseJsLiteralResponse rt t)
                  = Inl (APIError (''Failed to parse API response: ''
                                     @ errorToString ''SyntaxError'' conversionError) None [])"
    if "trim t \<noteq> []" and "jsonParse rt t = Inl e"
      and "jsonParse rt (convertJsLiteralToJson t) = Inl conversionError"
      and "runFunctionBody rt (''return ('' @ t @ '');'') = None" for t e
  proof -
    have "t \<noteq> []" using that(1) by (auto simp: trim_def)
    then show ?thesis using that by (simp add: parseJsLiteralResponse_def)
  qed
  have same: "\<forall>other otherError.
               trim other \<noteq> [] \<and> jsonParse rt other = Inl otherError
               \<and> jsonParse rt (convertJsLiteralToJson other) = Inl conversionError
               \<and> runFunctionBody rt (''return ('' @ other @ '');'') = None
               \<longrightarrow> fst (parseJsLiteralResponse rt other) = fst (parseJsLiteralResponse rt text)"
    using thrown assms by metis
  have "text \<noteq> []" using assms(1) by (auto simp: trim_def)
  then have "parseJsLiteralResponse rt text =
           (Inl (APIError (''Failed to parse API response: ''
                             @ errorToString ''SyntaxError'' conversionError) None []),
            [\<lparr>level = Error, logMessage = ''Failed to parse response:'',
              logArgs = [take 200 text]\<rparr>])"
    using assms by (simp add: parseJsLiteralResponse_def)
  with same show ?thesis by (simp add: APIError_def)
qed

text \<open>
  The texts \<open>[\<close> and \<open>[[\<close>: no step decodes them, the second step fails on both with
  the same message, the log receives \<open>[\<close> for the first, and the errors thrown are
  the same.
\<close>

theorem undecodable_text_error_and_log_witness:
  "trim ''['' \<noteq> []
   \<and> jsonParse jsonRuntime ''['' = Inl ''Unexpected end of JSON input''
   \<and> jsonParse jsonRuntime (convertJsLiteralToJson ''['') = Inl ''Unexpected end of JSON input''
   \<and> runFunctionBody jsonRuntime (''return ('' @ ''['' @ '');'') = None
   \<and> trim ''[['' \<noteq> []
   \<and> jsonParse jsonRuntime ''[['' = Inl ''Unexpected end of JSON input''
   \<and> jsonParse jsonRuntime (convertJsLiteralToJson ''[['') = Inl ''Unexpected end of JSON input''
   \<and> runFunctionBody jsonRuntime (''return ('' @ ''[['' @ '');'') = None
   \<and> snd (parseJsLiteralResponse jsonRuntime ''['')
       = [\<lparr>level = Error, logMessage = ''Failed to parse response:'', logArgs = [''['']\<rparr>]
   \<and> fst (parseJsLiteralResponse jsonRuntime ''[['')
       = fst (parseJsLiteralResponse jsonRuntime ''['')"
proof -
  have a: "trim ''['' \<noteq> []" and a': "trim ''[['' \<noteq> []"
    by (simp_all add: trim_blank isWhiteSpace_def)
  have c: "convertJsLiteralToJson ''['' = ''[''" and c': "convertJsLiteralToJson ''[['' = ''[[''"
    by (simp_all add: convertJsLiteralToJson_def matchKey_def isWhiteSpace_def isIdentStart_def
          isIdentPart_def isLineTerminator_def)
  have b: "jsonParse jsonRuntime ''['' = Inl ''Unexpected end of JSON input''"
    by (simp add: jsonRuntime_def stubRuntime_def jsonFragmentParse_def unexpectedEnd_def
          isJsonWhiteSpace_def)
  have b': "jsonParse jsonRuntime ''[['' = Inl ''Unexpected end of JSON input''"
    by code_simp
  have d: "runFunctionBody jsonRuntime (''return ('' @ ''['' @ '');'') = None"
    and d': "runFunctionBody jsonRuntime (''return ('' @ ''[['' @ '');'') = None"
    by (simp_all add: jsonRuntime_def stubRuntime_def)
  have bc: "jsonParse jsonRuntime (convertJsLiteralToJson ''['') = Inl ''Unexpected end of JSON input''"
    and bc': "jsonParse jsonRuntime (convertJsLiteralToJson ''[['') = Inl ''Unexpected end of JSON input''"
    using b b' c c' by simp_all
  note t = undecodable_text_error_and_log[OF a b bc d]
  from t have l: "snd (parseJsLiteralResponse jsonRuntime ''['')
       = [\<lparr>level = Error, logMessage = ''Failed to parse response:'', logArgs = [''['']\<rparr>]"
    by simp
  from t a' b' bc' d' have e: "fst (parseJsLiteralResponse jsonRuntime ''[['')
       = fst (parseJsLiteralResponse jsonRuntime ''['')"
    by blast
  show ?thesis
    by (intro conjI a b bc d a' b' bc' d' l e)
qed

text \<open>
  Claim C3 as stated fails in both of its parts. On the text \<open>[\<close> the three steps fail,
  the truncated prefix is the text itself, and the message of the error thrown does not
  contain it. On the text \<open>abc def\<close>, with a parser that words its error as V8 does, the
  three steps fail and the message of the error thrown contains the whole text.
\<close>

theorem decode_error_contents_follow_parser_message:
  "jsonParse jsonRuntime ''['' = Inl ''Unexpected end of JSON input''
   \<and> jsonParse jsonRuntime (convertJsLiteralToJson ''['') = Inl ''Unexpected end of JSON input''
   \<and> runFunctionBody jsonRuntime (''return ('' @ ''['' @ '');'') = None
   \<and> take 200 ''['' = ''[''
   \<and> fst (parseJsLiteralResponse jsonRuntime ''['')
       = Inl (APIError ''Failed to parse API response: SyntaxError: Unexpected end of JSON input''
                None [])
   \<and> \<not> sublist (take 200 ''['')
         (message (APIError
            ''Failed to parse API response: SyntaxError: Unexpected end of JSON input'' None []))
   \<and> jsonParse quotingRuntime ''abc def'' = Inl (quotingMessage (CHR ''a'') ''abc def'')
   \<and> jsonParse quotingRuntime (convertJsLiteralToJson ''abc def'')
       = Inl (quotingMessage (CHR ''a'') ''abc def'')
   \<and> runFunctionBody quotingRuntime (''return ('' @ ''abc def'' @ '');'') = None
   \<and> quotingMessage (CHR ''a'') ''abc def''
       = ''Unexpected token '' @ [CHR 0x27] @ ''a'' @ [CHR 0x27] @ '', '' @ [CHR 0x22]
           @ ''abc def'' @ [CHR 0x22] @ '' is not valid JSON''
   \<and> fst (parseJsLiteralResponse quotingRuntime ''abc def'')
       = Inl (APIError (''Failed to parse API response: SyntaxError: ''
                          @ quotingMessage (CHR ''a'') ''abc def'') None [])
   \<and> sublist ''abc def''
         (message (APIError (''Failed to parse API response: SyntaxError: ''
                               @ quotingMessage (CHR ''a'') ''abc def'') None []))"
proof -
  have a: "trim ''['' \<noteq> []" by (simp add: trim_blank isWhiteSpace_def)
  have c: "convertJsLiteralToJson ''['' = ''[''"
    by (simp add: convertJsLiteralToJson_def matchKey_def isWhiteSpace_def isIdentStart_def
          isIdentPart_def isLineTerminator_def)
  have b: "jsonParse jsonRuntime ''['' = Inl ''Unexpected end of JSON input''"
    by (simp add: jsonRuntime_def stubRuntime_def jsonFragmentParse_def unexpectedEnd_def
          isJsonWhiteSpace_def)
  have bc: "jsonParse jsonRuntime (convertJsLiteralToJson ''['') = Inl ''Unexpected end of JSON input''"
    using b c by simp
  have d: "runFunctionBody jsonRuntime (''return ('' @ ''['' @ '');'') = None"
    by (simp add: jsonRuntime_def stubRuntime_def)
  have t: "take 200 ''['' = ''[''" by simp
  have e: "fst (parseJsLiteralResponse jsonRuntime ''['')
       = Inl (APIError ''Failed to parse API response: SyntaxError: Unexpected end of JSON input''
                None [])"
    using a b c d by (simp add: parseJsLiteralResponse_def errorToString_def)
  have f: "\<not> sublist (take 200 ''['')
         (message (APIError
            ''Failed to parse API response: SyntaxError: Unexpected end of JSON input'' None []))"
    by (simp add: APIError_def sublist_Cons_right)
  have g: "jsonParse quotingRuntime ''abc def'' = Inl (quotingMessage (CHR ''a'') ''abc def'')"
    by code_simp
  have h: "jsonParse quotingRuntime (convertJsLiteralToJson ''abc def'')
       = Inl (quotingMessage (CHR ''a'') ''abc def'')"
    by code_simp
  have i: "runFunctionBody quotingRuntime (''return ('' @ ''abc def'' @ '');'') = None"
    by (simp add: quotingRuntime_def stubRuntime_def)
  have j: "quotingMessage (CHR ''a'') ''abc def''
       = ''Unexpected token '' @ [CHR 0x27] @ ''a'' @ [CHR 0x27] @ '', '' @ [CHR 0x22]
           @ ''abc def'' @ [CHR 0x22] @ '' is not valid JSON''"
    by (simp add: quotingMessage_def)
  have k: "fst (parseJsLiteralResponse quotingRuntime ''abc def'')
       = Inl (APIError (''Failed to parse API response: SyntaxError: ''
                          @ quotingMessage (CHR ''a'') ''abc def'') None [])"
    by code_simp
  have l: "sublist ''abc def''
         (message (APIError (''Failed to parse API response: SyntaxError: ''
                               @ quotingMessage (CHR ''a'') ''abc def'') None []))"
    by code_simp
  show ?thesis
    by (intro conjI b bc d t e f g h i j k l)
qed

section \<open>Properties of the handlers and of the upload\<close>

text \<open>
  Claim C4. Whatever the decoded response is: when its \<open>dataset\<close> is a string and when
  it has no \<open>dataset\<close>, the handler of \<open>transaction_list\<close> returns the same object,
  \<open>{count: 0, transactions: []}\<close>, and throws nothing. The last two parts say the same of
  a response that is an object.
\<close>

theorem string_root_means_no_transactions:
  "(field rawResponse ''dataset'' = JStr s \<longrightarrow>
      handleTransactionList rt (\<lambda>endpoint params. Inr rawResponse) validated
        = Inr (JObj [(''count'', JNum (Finite 0)), (''transactions'', JArr [])]))
   \<and> (field rawResponse ''dataset'' = JUndefined \<longrightarrow>
      handleTransactionList rt (\<lambda>endpoint params. Inr rawResponse) validated
        = Inr (JObj [(''count'', JNum (Finite 0)), (''transactions'', JArr [])]))
   \<and> (map_of kvs ''dataset'' = Some (JStr s) \<longrightarrow>
      handleTransactionList rt (\<lambda>endpoint params. Inr (JObj kvs)) validated
        = Inr (JObj [(''count'', JNum (Finite 0)), (''transactions'', JArr [])]))
   \<and> (map_of kvs ''dataset'' = None \<longrightarrow>
      handleTransactionList rt (\<lambda>endpoint params. Inr (JObj kvs)) validated
        = Inr (JObj [(''count'', JNum (Finite 0)), (''transactions'', JArr [])]))"
  by (simp add: handleTransactionList_def)

text \<open>
  An empty string as root, a root under another name, and a root that is a non-empty
  string.
\<close>

theorem string_root_means_no_transactions_witness:
  "field (JObj [(''dataset'', JStr '''')]) ''dataset'' = JStr ''''
   \<and> field (JObj [(''data'', JStr '''')]) ''dataset'' = JUndefined
   \<and> map_of [(''dataset'', JStr ''none'')] ''dataset'' = Some (JStr ''none'')
   \<and> map_of [(''data'', JStr '''')] ''dataset'' = None
   \<and> handleTransactionList stubRuntime (\<lambda>endpoint params. Inr (JObj [(''dataset'', JStr '''')]))
         (JObj [(''startDate'', JStr ''2024-01-01''), (''endDate'', JStr ''2024-01-31'')])
       = Inr (JObj [(''count'', JNum (Finite 0)), (''transactions'', JArr [])])
   \<and> handleTransactionList stubRuntime (\<lambda>endpoint params. Inr (JObj [(''data'', JStr '''')]))
         (JObj [(''startDate'', JStr ''2024-01-01''), (''endDate'', JStr ''2024-01-31'')])
       = Inr (JObj [(''count'', JNum (Finite 0)), (''transactions'', JArr [])])
   \<and> handleTransactionList stubRuntime (\<lambda>endpoint params. Inr (JObj [(''dataset'', JStr ''none'')]))
         (JObj [(''startDate'', JStr ''2024-01-01''), (''endDate'', JStr ''2024-01-31'')])
       = Inr (JObj [(''count'', JNum (Finite 0)), (''transactions'', JArr [])])"
proof -
  let ?v = "JObj [(''startDate'', JStr ''2024-01-01''), (''endDate'', JStr ''2024-01-31'')]"
  have a: "field (JObj [(''dataset'', JStr '''')]) ''dataset'' = JStr ''''"
    and b: "field (JObj [(''data'', JStr '''')]) ''dataset'' = JUndefined"
    and c: "map_of [(''dataset'', JStr ''none'')] ''dataset'' = Some (JStr ''none'')"
    and d: "map_of [(''data'', JStr '''')] ''dataset'' = None"
    by simp_all
  note t1 = string_root_means_no_transactions[of "JObj [(''dataset'', JStr '''')]" "''''" stubRuntime ?v
      "[(''dataset'', JStr ''none'')]"]
  note t2 = string_root_means_no_transactions[of "JObj [(''data'', JStr '''')]" "''none''" stubRuntime ?v
      "[(''data'', JStr '''')]"]
  note t3 = string_root_means_no_transactions[of "JObj [(''data'', JStr '''')]" "''none''" stubRuntime ?v
      "[(''dataset'', JStr ''none'')]"]
  from t1 a have r1: "handleTransactionList stubRuntime (\<lambda>endpoint params. Inr (JObj [(''dataset'', JStr '''')])) ?v
       = Inr (JObj [(''count'', JNum (Finite 0)), (''transactions'', JArr [])])" by blast
  from t2 b have r2: "handleTransactionList stubRuntime (\<lambda>endpoint params. Inr (JObj [(''data'', JStr '''')])) ?v
       = Inr (JObj [(''count'', JNum (Finite 0)), (''transactions'', JArr [])])" by blast
  from t3 c have r3: "handleTransactionList stubRuntime (\<lambda>endpoint params. Inr (JObj [(''dataset'', JStr ''none'')])) ?v
       = Inr (JObj [(''count'', JNum (Finite 0)), (''transactions'', JArr [])])" by blast
  from a b c d r1 r2 r3 show ?thesis by blast
qed

text \<open>
  Claim C5, as the code has it. The result of \<open>transfer_update\<close> carries the message of
  the upstream response when that message is truthy, and the warning otherwise.
\<close>

theorem transfer_update_message:
  assumes "\<not> isNullish response"
  shows "handleTransferUpdate rt (\<lambda>endpoint data. Inr response) validated =
     Inr (JObj
       [(''success'', JBool (field response ''success'' \<noteq> JBool False
                             \<and> field response ''result'' \<noteq> JStr ''fail'')),
        (''transferId'', field validated ''id''),
        (''message'', if truthy (field response ''message'') then field response ''message''
                      else JStr transferUpdateWarning)])"
  using assms by (simp add: handleTransferUpdate_def orElse_def)

text \<open>An upstream response without a message: the result carries the warning.\<close>

theorem transfer_update_message_witness:
  "\<not> isNullish (JObj [])
   \<and> handleTransferUpdate stubRuntime (\<lambda>endpoint data. Inr (JObj [])) transferInput =
       Inr (JObj [(''success'', JBool True), (''transferId'', JStr ''1701''),
                  (''message'', JStr transferUpdateWarning)])"
  using transfer_update_message[of "JObj []" stubRuntime transferInput]
  by (simp add: isNullish_def transferInput_def)

text \<open>
  Claim C5 as stated fails when the upstream answers
  \<open>{success: true, message: "Transfer updated"}\<close>: the result reports success and its
  message is the upstream's, without the warning.
\<close>

theorem transfer_update_warning_omitted:
  "handleTransferUpdate stubRuntime answeringUpdated transferInput =
     Inr (JObj [(''success'', JBool True), (''transferId'', JStr ''1701''),
                (''message'', JStr ''Transfer updated'')])
   \<and> \<not> sublist ''WARNING'' ''Transfer updated''
   \<and> ''Transfer updated'' \<noteq> transferUpdateWarning"
  by (simp add: handleTransferUpdate_def answeringUpdated_def updatedResponse_def
        transferInput_def isNullish_def orElse_def transferUpdateWarning_def sublist_Cons_right)

text \<open>
  Claim C6, as the code has it. When the file does not exist, \<open>uploadFile\<close> throws a
  plain \<open>Error\<close> with the message \<open>File not found: \<close> and the path, having sent no
  request; \<open>handleBackupRestore\<close>, which calls it, throws \<open>FileError.notFound\<close> instead,
  whose category is FILE and which is not retryable.
\<close>

theorem upload_of_absent_file:
  assumes "\<not> existsSync filePath"
  shows "uploadFile rt cfg existsSync upstream endpoint filePath fieldName
           = (Inl (newError rt (''File not found: '' @ filePath)), 0)
     \<and> handleBackupRestore rt
          (\<lambda>endpoint path fieldName. fst (uploadFile rt cfg existsSync upstream endpoint path fieldName))
          filePath
           = Inl (Mcp (FileError_notFound filePath))
     \<and> category (FileError_notFound filePath) = FILE
     \<and> \<not> retryable (FileError_notFound filePath)
     \<and> snd (uploadFile rt cfg existsSync upstream ''/uploadSqlFile'' filePath ''file'') = 0"
proof -
  have "sublist ''File not found'' (''File not found: '' @ filePath)"
    using sublist_append_rightI[of "''File not found''" "'': '' @ filePath"] by simp
  then show ?thesis
    using assms
    by (simp add: uploadFile_def handleBackupRestore_def newError_def FileError_notFound_def
          FileError_def)
qed

text \<open>A file system without files.\<close>

theorem upload_of_absent_file_witness:
  "\<not> noFiles ''/tmp/money.sqlite''
   \<and> uploadFile stubRuntime DEFAULT_CONFIG noFiles acceptingServer ''/uploadSqlFile''
        ''/tmp/money.sqlite'' ''file''
       = (Inl (JsError None ''File not found: /tmp/money.sqlite'' None), 0)
   \<and> category (FileError_notFound ''/tmp/money.sqlite'') = FILE"
  using upload_of_absent_file[of noFiles "''/tmp/money.sqlite''" stubRuntime DEFAULT_CONFIG
          acceptingServer "''/uploadSqlFile''" "''file''"]
  by (simp add: noFiles_def newError_def stubRuntime_def)

text \<open>
  Claim C6 as stated fails: what \<open>uploadFile\<close> throws for an absent file is not an error
  of the taxonomy, and \<open>wrapError\<close> would classify it as INTERNAL, not FILE.
\<close>

theorem upload_error_is_unclassified:
  "fst (uploadFile stubRuntime DEFAULT_CONFIG noFiles acceptingServer ''/uploadSqlFile''
          ''/tmp/money.sqlite'' ''file'')
     = Inl (JsError None ''File not found: /tmp/money.sqlite'' None)
   \<and> fst (uploadFile stubRuntime DEFAULT_CONFIG noFiles acceptingServer ''/uploadSqlFile''
          ''/tmp/money.sqlite'' ''file'')
     \<noteq> Inl (Mcp (FileError_notFound ''/tmp/money.sqlite''))
   \<and> category (wrapError stubRuntime (JsError None ''File not found: /tmp/money.sqlite'' None))
       = INTERNAL"
  by (simp add: uploadFile_def noFiles_def newError_def stubRuntime_def
        InternalError_unexpected_def InternalError_def)

lemma first_answer_returned:
  assumes "0 \<le> retryCount (server cfg)" and "f 0 = Inr v"
  shows "executeWithRetry rt cfg f = \<lparr>outcome = Inr v, attempts = 1, sleeps = [], logCalls = []\<rparr>"
  unfolding executeWithRetry_def using assms by (subst retryLoop.simps) simp

lemma empty_body_posted:
  assumes "ConfigSchema cfg" and "upstream (PostForm endpoint (toFormData data)) 0 = Inr []"
  shows "fst (post rt cfg upstream endpoint data) = Inr (JObj [])"
proof -
  have rc: "0 \<le> retryCount (server cfg)" using assms(1) by (simp add: ConfigSchema_def)
  have "clientRequest rt cfg (upstream (PostForm endpoint (toFormData data))) 0 = Inr []"
    using assms(2) by (simp add: clientRequest_def)
  from first_answer_returned[where f="clientRequest rt cfg (upstream (PostForm endpoint (toFormData data)))" and rt=rt, OF rc this]
  show ?thesis by (simp add: post_def parseJsLiteralResponse_def)
qed

text \<open>
  The flag \<open>success\<close>, for every response that is not \<open>null\<close> or \<open>undefined\<close>, as the
  handler receives it from the client. Each of the eleven mutating handlers returns an
  object whose \<open>success\<close> is true exactly when that response has neither \<open>success\<close> equal
  to \<open>false\<close> nor \<open>result\<close> equal to \<open>"fail"\<close>; for a response that is an object these
  are its own properties; and when the upstream answers with an empty body, which \<open>post\<close>
  decodes to the empty object, the handlers that post report \<open>success = true\<close>.
\<close>

lemma handlers_success_flag:
  "(\<not> isNullish response \<longrightarrow>
      (\<forall>h \<in> {handleTransactionCreate rt, handleTransactionUpdate rt, handleAssetCreate rt,
               handleAssetUpdate rt, handleAssetDelete rt, handleCardCreate rt,
               handleCardUpdate rt, handleTransferCreate rt, handleTransferUpdate rt}.
         \<exists>fields. h (\<lambda>endpoint data. Inr response) validated = Inr (JObj fields)
           \<and> map_of fields ''success''
               = Some (JBool (field response ''success'' \<noteq> JBool False
                              \<and> field response ''result'' \<noteq> JStr ''fail'')))
      \<and> (\<exists>fields. handleTransactionDelete rt (\<lambda>endpoint data. Inr response) ids
                     = Inr (JObj fields)
           \<and> map_of fields ''success''
               = Some (JBool (field response ''success'' \<noteq> JBool False
                              \<and> field response ''result'' \<noteq> JStr ''fail'')))
      \<and> (\<exists>fields. handleBackupRestore rt (\<lambda>endpoint path fieldName. Inr response) filePath
                     = Inr (JObj fields)
           \<and> map_of fields ''success''
               = Some (JBool (field response ''success'' \<noteq> JBool False
                              \<and> field response ''result'' \<noteq> JStr ''fail''))))
   \<and> (field (JObj kvs) ''success'' \<noteq> JBool False \<and> field (JObj kvs) ''result'' \<noteq> JStr ''fail''
        \<longleftrightarrow> map_of kvs ''success'' \<noteq> Some (JBool False)
            \<and> map_of kvs ''result'' \<noteq> Some (JStr ''fail''))
   \<and> (ConfigSchema cfg \<and> (\<forall>request. upstream request 0 = Inr []) \<longrightarrow>
      (\<forall>h \<in> {handleTransactionCreate rt, handleTransactionUpdate rt, handleAssetCreate rt,
               handleAssetUpdate rt, handleAssetDelete rt, handleCardCreate rt,
               handleCardUpdate rt, handleTransferCreate rt, handleTransferUpdate rt}.
         \<exists>fields. h (\<lambda>endpoint data. fst (post rt cfg upstream endpoint data)) validated
                     = Inr (JObj fields)
           \<and> map_of fields ''success'' = Some (JBool True))
      \<and> (\<exists>fields. handleTransactionDelete rt
                      (\<lambda>endpoint data. fst (post rt cfg upstream endpoint data)) ids
                     = Inr (JObj fields)
           \<and> map_of fields ''success'' = Some (JBool True)))"
proof -
  have general: "\<not> isNullish response \<longrightarrow>
      (\<forall>h \<in> {handleTransactionCreate rt, handleTransactionUpdate rt, handleAssetCreate rt,
               handleAssetUpdate rt, handleAssetDelete rt, handleCardCreate rt,
               handleCardUpdate rt, handleTransferCreate rt, handleTransferUpdate rt}.
         \<exists>fields. h (\<lambda>endpoint data. Inr response) validated = Inr (JObj fields)
           \<and> map_of fields ''success''
               = Some (JBool (field response ''success'' \<noteq> JBool False
                              \<and> field response ''result'' \<noteq> JStr ''fail'')))
      \<and> (\<exists>fields. handleTransactionDelete rt (\<lambda>endpoint data. Inr response) ids
                     = Inr (JObj fields)
           \<and> map_of fields ''success''
               = Some (JBool (field response ''success'' \<noteq> JBool False
                              \<and> field response ''result'' \<noteq> JStr ''fail'')))
      \<and> (\<exists>fields. handleBackupRestore rt (\<lambda>endpoint path fieldName. Inr response) filePath
                     = Inr (JObj fields)
           \<and> map_of fields ''success''
               = Some (JBool (field response ''success'' \<noteq> JBool False
                              \<and> field response ''result'' \<noteq> JStr ''fail'')))"
    by (simp add: handleTransactionCreate_def handleTransactionUpdate_def handleAssetCreate_def
          handleAssetUpdate_def handleAssetDelete_def handleCardCreate_def handleCardUpdate_def
          handleTransferCreate_def handleTransferUpdate_def handleTransactionDelete_def
          handleBackupRestore_def)
  have object: "field (JObj kvs) ''success'' \<noteq> JBool False \<and> field (JObj kvs) ''result'' \<noteq> JStr ''fail''
        \<longleftrightarrow> map_of kvs ''success'' \<noteq> Some (JBool False)
            \<and> map_of kvs ''result'' \<noteq> Some (JStr ''fail'')"
    by (auto split: option.splits)
  have empty: "ConfigSchema cfg \<and> (\<forall>request. upstream request 0 = Inr []) \<longrightarrow>
      (\<forall>h \<in> {handleTransactionCreate rt, handleTransactionUpdate rt, handleAssetCreate rt,
               handleAssetUpdate rt, handleAssetDelete rt, handleCardCreate rt,
               handleCardUpdate rt, handleTransferCreate rt, handleTransferUpdate rt}.
         \<exists>fields. h (\<lambda>endpoint data. fst (post rt cfg upstream endpoint data)) validated
                     = Inr (JObj fields)
           \<and> map_of fields ''success'' = Some (JBool True))
      \<and> (\<exists>fields. handleTransactionDelete rt
                      (\<lambda>endpoint data. fst (post rt cfg upstream endpoint data)) ids
                     = Inr (JObj fields)
           \<and> map_of fields ''success'' = Some (JBool True))"
  proof (intro impI)
    assume a: "ConfigSchema cfg \<and> (\<forall>request. upstream request 0 = Inr [])"
    then have p: "fst (post rt cfg upstream endpoint data) = Inr (JObj [])" for endpoint data
      by (intro empty_body_posted) simp_all
    show "(\<forall>h \<in> {handleTransactionCreate rt, handleTransactionUpdate rt, handleAssetCreate rt,
               handleAssetUpdate rt, handleAssetDelete rt, handleCardCreate rt,
               handleCardUpdate rt, handleTransferCreate rt, handleTransferUpdate rt}.
         \<exists>fields. h (\<lambda>endpoint data. fst (post rt cfg upstream endpoint data)) validated
                     = Inr (JObj fields)
           \<and> map_of fields ''success'' = Some (JBool True))
      \<and> (\<exists>fields. handleTransactionDelete rt
                      (\<lambda>endpoint data. fst (post rt cfg upstream endpoint data)) ids
                     = Inr (JObj fields)
           \<and> map_of fields ''success'' = Some (JBool True))"
      unfolding p
      by (simp add: handleTransactionCreate_def handleTransactionUpdate_def handleAssetCreate_def
          handleAssetUpdate_def handleAssetDelete_def handleCardCreate_def handleCardUpdate_def
          handleTransferCreate_def handleTransferUpdate_def handleTransactionDelete_def
          isNullish_def)
  qed
  from general object empty show ?thesis by blast
qed

text \<open>
  A response \<open>{result: "fail"}\<close> to a transfer, and an empty body in answer to a
  deletion.
\<close>

lemma handlers_success_flag_example:
  "\<not> isNullish failResponse
   \<and> handleTransferCreate stubRuntime \<in>
       {handleTransactionCreate stubRuntime, handleTransactionUpdate stubRuntime,
        handleAssetCreate stubRuntime, handleAssetUpdate stubRuntime,
        handleAssetDelete stubRuntime, handleCardCreate stubRuntime,
        handleCardUpdate stubRuntime, handleTransferCreate stubRuntime,
        handleTransferUpdate stubRuntime}
   \<and> (\<exists>fields. handleTransferCreate stubRuntime (\<lambda>endpoint data. Inr failResponse) transferInput
                   = Inr (JObj fields)
         \<and> map_of fields ''success'' = Some (JBool False))
   \<and> ConfigSchema DEFAULT_CONFIG
   \<and> silentServer (PostForm ''/delete'' [(''ids'', JStr '':a:b'')]) 0 = Inr []
   \<and> (\<exists>fields. handleTransactionDelete stubRuntime
                    (\<lambda>endpoint data. fst (post stubRuntime DEFAULT_CONFIG silentServer endpoint data))
                    [''a'', ''b'']
                   = Inr (JObj fields)
         \<and> map_of fields ''success'' = Some (JBool True))"
proof -
  have n: "\<not> isNullish failResponse" by (simp add: isNullish_def failResponse_def)
  have m: "handleTransferCreate stubRuntime \<in>
       {handleTransactionCreate stubRuntime, handleTransactionUpdate stubRuntime,
        handleAssetCreate stubRuntime, handleAssetUpdate stubRuntime,
        handleAssetDelete stubRuntime, handleCardCreate stubRuntime,
        handleCardUpdate stubRuntime, handleTransferCreate stubRuntime,
        handleTransferUpdate stubRuntime}" by simp
  have v: "ConfigSchema DEFAULT_CONFIG" by (simp add: ConfigSchema_def DEFAULT_CONFIG_def)
  have q: "\<forall>request. silentServer request 0 = Inr []" by (simp add: silentServer_def)
  have f: "(field failResponse ''success'' \<noteq> JBool False
            \<and> field failResponse ''result'' \<noteq> JStr ''fail'') = False"
    by (simp add: failResponse_def)
  note t = handlers_success_flag[of failResponse stubRuntime transferInput
             "[''a'', ''b'']" "''/tmp/money.sqlite''" "[]" DEFAULT_CONFIG silentServer]
  note a0 = t[THEN conjunct1, THEN mp, OF n, THEN conjunct1, THEN bspec, OF m]
  have a: "\<exists>fields. handleTransferCreate stubRuntime (\<lambda>endpoint data. Inr failResponse) transferInput
                   = Inr (JObj fields)
         \<and> map_of fields ''success'' = Some (JBool False)"
    using a0 unfolding f .
  note b = t[THEN conjunct2, THEN conjunct2, THEN mp, OF conjI[OF v q], THEN conjunct2]
  have s: "silentServer (PostForm ''/delete'' [(''ids'', JStr '':a:b'')]) 0 = Inr []"
    by (simp add: silentServer_def)
  show ?thesis
    by (intro conjI n m a v s b)
qed

text \<open>
  Claim C10 holds of the ten handlers that post, by the lemma above, and fails for
  \<open>backup_restore\<close>. The upstream answers \<open>{result:'fail'}\<close>. The decoder turns this body
  into an object whose \<open>result\<close> is \<open>"fail"\<close>, and \<open>asset_delete\<close>, which receives it
  through \<open>post\<close>, reports \<open>success = false\<close>. \<open>uploadFile\<close> returns the data of the
  response without decoding it, the string is handed to \<open>handleBackupRestore\<close> as it
  is, and \<open>backup_restore\<close> reports \<open>success = true\<close>.
\<close>

theorem backup_restore_judges_undecoded_response:
  "fst (parseJsLiteralResponse jsonRuntime failBody) = Inr failResponse
   \<and> field failResponse ''result'' = JStr ''fail''
   \<and> handleAssetDelete jsonRuntime
        (\<lambda>endpoint data. fst (post jsonRuntime DEFAULT_CONFIG refusingServer endpoint data))
        (JObj [(''assetId'', JStr ''a1'')])
       = Inr (JObj [(''success'', JBool False), (''assetId'', JStr ''a1''),
                    (''message'', JUndefined)])
   \<and> uploadFile jsonRuntime DEFAULT_CONFIG everyFile refusingUploadServer ''/uploadSqlFile''
        ''/tmp/money.sqlite'' ''file''
       = (Inr (JStr failBody), 1)
   \<and> handleBackupRestore jsonRuntime
        (\<lambda>endpoint path fieldName.
            fst (uploadFile jsonRuntime DEFAULT_CONFIG everyFile refusingUploadServer
                   endpoint path fieldName))
        ''/tmp/money.sqlite''
       = Inr (JObj [(''success'', JBool True),
                    (''message'', JStr ''Database restored successfully'')])"
proof -
  have a: "fst (parseJsLiteralResponse jsonRuntime failBody) = Inr failResponse"
    by code_simp
  have b: "field failResponse ''result'' = JStr ''fail''"
    by (simp add: failResponse_def)
  have c: "handleAssetDelete jsonRuntime
        (\<lambda>endpoint data. fst (post jsonRuntime DEFAULT_CONFIG refusingServer endpoint data))
        (JObj [(''assetId'', JStr ''a1'')])
       = Inr (JObj [(''success'', JBool False), (''assetId'', JStr ''a1''),
                    (''message'', JUndefined)])"
    by code_simp
  have d: "uploadFile jsonRuntime DEFAULT_CONFIG everyFile refusingUploadServer ''/uploadSqlFile''
        ''/tmp/money.sqlite'' ''file''
       = (Inr (JStr failBody), 1)"
    by code_simp
  have e: "handleBackupRestore jsonRuntime
        (\<lambda>endpoint path fieldName.
            fst (uploadFile jsonRuntime DEFAULT_CONFIG everyFile refusingUploadServer
                   endpoint path fieldName))
        ''/tmp/money.sqlite''
       = Inr (JObj [(''success'', JBool True),
                    (''message'', JStr ''Database restored successfully'')])"
    by code_simp
  show ?thesis
    by (intro conjI a b c d e)
qed

end
